theory Spec2Isabelle
  imports Main
begin

section \<open>Shared data: cells, grids, snapshots\<close>

text \<open>
  The synchronisation core of the match-3 battle game: the conflict resolver
  (\<^verbatim>\<open>ConflictResolver.ts\<close>), the state synchroniser (\<^verbatim>\<open>StateSynchronizer.ts\<close>),
  the snapshot store of \<^verbatim>\<open>ReconnectionManager.ts\<close> and the relay server
  (\<^verbatim>\<open>server/battleServer.cjs\<close>).

  JavaScript numbers that hold versions, scores, counters and millisecond clocks are
  modelled as \<open>int\<close>; \<^verbatim>\<open>Date.now()\<close> is a parameter \<open>now\<close> of every operation that
  reads the clock. A read \<^verbatim>\<open>a[i]\<close> past the end of an array yields \<^verbatim>\<open>undefined\<close>
  (\<open>None\<close>); a read \<^verbatim>\<open>a[i][j]\<close> where \<^verbatim>\<open>a[i]\<close> is \<^verbatim>\<open>undefined\<close> throws a
  \<^verbatim>\<open>TypeError\<close>, which is the value \<open>Inl TypeError\<close> of the model.
\<close>

datatype CandyType = RED | BLUE | GREEN | YELLOW | PURPLE | EMPTY

datatype GameEventType =
  GRAVITY_REVERSE | FROZEN_COLORS | COMBO_BONUS | OBSTACLE_GENERATE | SPEED_UP

type_synonym grid = "CandyType list list"

text \<open>\<open>TypeError\<close> is the exception JavaScript throws on a property access on
  \<^verbatim>\<open>undefined\<close>.\<close>

datatype error = TypeError

text \<open>The \<^verbatim>\<open>value: any\<close> of a change record: a cell, a number, a list of event tags, a
  string, \<^verbatim>\<open>undefined\<close> (what \<^verbatim>\<open>newGrid[row][col]\<close> reads past the end of a row, and
  what an absent \<^verbatim>\<open>oldValue\<close> is) or \<^verbatim>\<open>null\<close> (what a JSON round trip makes of
  \<^verbatim>\<open>undefined\<close> in an array). The tags of the two enumerations are strings at run time;
  the model keeps them apart from the other strings.\<close>

datatype change_value =
  Undefined | Null | Cell CandyType | Number int | Events "GameEventType list" | Text string

text \<open>
  The snapshot object that \<^verbatim>\<open>applyDelta\<close> works on. \<^verbatim>\<open>applyDelta\<close> assigns
  \<^verbatim>\<open>change.value\<close>, of type \<^verbatim>\<open>any\<close>, to the cells and to seven fields of the object, so
  at run time a cell or such a field holds whatever value the change carried, and an
  assignment past the end of a row leaves holes in the array: an element of a row is a
  value or a hole (\<open>None\<close>). \<^verbatim>\<open>version\<close> and \<^verbatim>\<open>timestamp\<close> are assigned from the
  typed fields of the delta. A field that holds \<^verbatim>\<open>undefined\<close> and a field that is absent
  both read as \<open>Undefined\<close>. The field names of this record are written with the
  record's name (\<open>UntypedSnapshot.playerGrid\<close>).
\<close>

record UntypedSnapshot =
  timestamp :: int
  version :: int
  playerGrid :: "change_value option list list"
  opponentGrid :: "change_value option list list"
  playerScore :: change_value
  opponentScore :: change_value
  playerMoves :: change_value
  opponentMoves :: change_value
  eventProgress :: change_value
  activeEvents :: change_value
  currentTurn :: change_value

text \<open>The TypeScript interface \<^verbatim>\<open>StateSnapshot\<close>, with its declared types.\<close>

record StateSnapshot =
  timestamp :: int
  version :: int
  playerGrid :: grid
  opponentGrid :: grid
  playerScore :: int
  opponentScore :: int
  playerMoves :: int
  opponentMoves :: int
  eventProgress :: int
  activeEvents :: "GameEventType list"
  currentTurn :: string

text \<open>\<^verbatim>\<open>grid[row][col]\<close>: throws when the row is missing, \<^verbatim>\<open>undefined\<close> when only the
  column is.\<close>

definition cell_at :: "grid \<Rightarrow> nat \<Rightarrow> nat \<Rightarrow> error + CandyType option" where
  "cell_at g row col =
     (if row < length g
      then Inr (if col < length (g ! row) then Some (g ! row ! col) else None)
      else Inl TypeError)"

text \<open>\<^verbatim>\<open>grid[row]?.[col] ?? CandyType.EMPTY\<close>.\<close>

definition cell_or_empty :: "grid \<Rightarrow> nat \<Rightarrow> nat \<Rightarrow> CandyType" where
  "cell_or_empty g row col =
     (if row < length g \<and> col < length (g ! row) then g ! row ! col else EMPTY)"

text \<open>A \<^verbatim>\<open>for\<close> loop whose body may throw: the first exception ends the loop.\<close>

fun for_each :: "'a list \<Rightarrow> ('a \<Rightarrow> 's \<Rightarrow> error + 's) \<Rightarrow> 's \<Rightarrow> error + 's" where
  "for_each [] body s = Inr s"
| "for_each (x # xs) body s =
     (case body x s of Inl e \<Rightarrow> Inl e | Inr s' \<Rightarrow> for_each xs body s')"

text \<open>\<^verbatim>\<open>JSON.parse(JSON.stringify(obj))\<close>: on the typed values of the model (integers,
  strings, enumeration tags, arrays and records of them) the round trip yields an equal
  value.\<close>

definition deepClone :: "'a \<Rightarrow> 'a" where
  "deepClone obj = obj"

section \<open>ConflictResolver\<close>

datatype ConflictType =
  VERSION_MISMATCH | CONCURRENT_MOVES | STATE_DIVERGENCE | GRID_INCONSISTENCY | SCORE_MISMATCH

datatype ResolutionStrategy =
  SERVER_AUTHORITATIVE | CLIENT_AUTHORITATIVE | LATEST_TIMESTAMP | MERGE | ROLLBACK

text \<open>The \<^verbatim>\<open>description\<close> of a conflict and the \<^verbatim>\<open>message\<close> of a resolution are
  diagnostic text and are left out of the records, as is the floating-point running
  mean \<^verbatim>\<open>averageResolutionTime\<close>.\<close>

record Conflict =
  type :: ConflictType
  timestamp :: int
  localVersion :: int
  remoteVersion :: int
  localState :: StateSnapshot
  remoteState :: StateSnapshot

record Position =
  row :: nat
  col :: nat

record CompensationMove =
  position :: Position
  oldValue :: "CandyType option"
  newValue :: "CandyType option"
  reason :: string

record ResolutionResult =
  success :: bool
  strategy :: ResolutionStrategy
  resolvedState :: StateSnapshot
  rollbackRequired :: bool
  compensationMoves :: "CompensationMove list"

record ConflictStats =
  totalConflicts :: nat
  resolvedConflicts :: nat
  failedResolutions :: nat
  byType :: "ConflictType \<Rightarrow> nat"
  byStrategy :: "ResolutionStrategy \<Rightarrow> nat"

record ConflictResolver =
  strategy :: ResolutionStrategy
  isServerAuthority :: bool
  conflicts :: "Conflict list"
  stats :: ConflictStats

definition maxHistorySize :: nat where
  "maxHistorySize = 100"

definition createConflict ::
  "int \<Rightarrow> ConflictType \<Rightarrow> int \<Rightarrow> int \<Rightarrow> StateSnapshot \<Rightarrow> StateSnapshot \<Rightarrow> ConflictResolver
     \<Rightarrow> Conflict \<times> ConflictResolver" where
  "createConflict now ty lv rv ls rs cr =
     (let conflict = \<lparr>Conflict.type = ty, timestamp = now, localVersion = lv,
                       remoteVersion = rv, localState = ls, remoteState = rs\<rparr>;
          pushed = conflicts cr @ [conflict]
      in (conflict,
          cr\<lparr>conflicts := (if length pushed > maxHistorySize then tl pushed else pushed)\<rparr>))"

text \<open>\<^verbatim>\<open>ConflictResolver.compareGrids\<close>: counts the differing cells over the rows and
  columns that both grids have.\<close>

definition compareGrids :: "grid \<Rightarrow> grid \<Rightarrow> nat" where
  "compareGrids grid1 grid2 =
     fold (\<lambda>row differences.
             fold (\<lambda>col differences.
                     if grid1 ! row ! col \<noteq> grid2 ! row ! col
                     then differences + 1 else differences)
                  [0 ..< min (length (grid1 ! row)) (length (grid2 ! row))] differences)
          [0 ..< min (length grid1) (length grid2)] 0"

definition detectConflict ::
  "int \<Rightarrow> ConflictResolver \<Rightarrow> StateSnapshot \<Rightarrow> StateSnapshot
     \<Rightarrow> Conflict option \<times> ConflictResolver" where
  "detectConflict now cr localSt remoteSt =
     (if \<bar>version localSt - version remoteSt\<bar> > 1
      then (case createConflict now VERSION_MISMATCH (version localSt) (version remoteSt)
                   localSt remoteSt cr of (c, cr') \<Rightarrow> (Some c, cr'))
      else let gridDiff = compareGrids (playerGrid localSt) (opponentGrid remoteSt) in
      if gridDiff > 5
      then (case createConflict now GRID_INCONSISTENCY (version localSt) (version remoteSt)
                   localSt remoteSt cr of (c, cr') \<Rightarrow> (Some c, cr'))
      else let scoreDiff = \<bar>(playerScore localSt + opponentScore localSt) -
                            (playerScore remoteSt + opponentScore remoteSt)\<bar> in
      if scoreDiff > 100
      then (case createConflict now SCORE_MISMATCH (version localSt) (version remoteSt)
                   localSt remoteSt cr of (c, cr') \<Rightarrow> (Some c, cr'))
      else let timeDiff = \<bar>StateSnapshot.timestamp localSt - StateSnapshot.timestamp remoteSt\<bar> in
      if timeDiff > 10000
      then (case createConflict now STATE_DIVERGENCE (version localSt) (version remoteSt)
                   localSt remoteSt cr of (c, cr') \<Rightarrow> (Some c, cr'))
      else (None, cr))"

text \<open>\<^verbatim>\<open>generateCompensationMoves\<close>: a fixed 8 by 8 window of the two player grids.
  Each read is \<^verbatim>\<open>state.playerGrid[row][col]\<close> and throws on a missing row.\<close>

definition compensation_cell ::
  "StateSnapshot \<Rightarrow> StateSnapshot \<Rightarrow> nat \<Rightarrow> nat \<Rightarrow> CompensationMove list
     \<Rightarrow> error + CompensationMove list" where
  "compensation_cell currentState targetState r c moves =
     (case cell_at (playerGrid currentState) r c of
        Inl e \<Rightarrow> Inl e
      | Inr cur \<Rightarrow>
          (case cell_at (playerGrid targetState) r c of
             Inl e \<Rightarrow> Inl e
           | Inr tgt \<Rightarrow>
               Inr (if cur \<noteq> tgt
                    then moves @ [\<lparr>position = \<lparr>row = r, col = c\<rparr>, oldValue = cur,
                                   newValue = tgt, reason = ''Grid synchronization''\<rparr>]
                    else moves)))"

definition generateCompensationMoves ::
  "StateSnapshot \<Rightarrow> StateSnapshot \<Rightarrow> error + CompensationMove list" where
  "generateCompensationMoves currentState targetState =
     for_each [0 ..< 8]
       (\<lambda>r. for_each [0 ..< 8] (\<lambda>c. compensation_cell currentState targetState r c)) []"

text \<open>\<^verbatim>\<open>mergeGrids\<close>: as many rows as the longer grid, always 8 columns.\<close>

definition mergeGrids :: "grid \<Rightarrow> grid \<Rightarrow> grid" where
  "mergeGrids grid1 grid2 =
     map (\<lambda>r. map (\<lambda>c. let cell1 = cell_or_empty grid1 r c;
                          cell2 = cell_or_empty grid2 r c
                      in if cell1 \<noteq> EMPTY then cell1 else cell2)
                [0 ..< 8])
         [0 ..< max (length grid1) (length grid2)]"

definition resolveServerAuthoritative ::
  "ConflictResolver \<Rightarrow> Conflict \<Rightarrow> StateSnapshot \<Rightarrow> StateSnapshot \<Rightarrow> error + ResolutionResult" where
  "resolveServerAuthoritative cr conflict localSt remoteSt =
     (let resolved = (if isServerAuthority cr then localSt else remoteSt) in
      case generateCompensationMoves localSt resolved of
        Inl e \<Rightarrow> Inl e
      | Inr moves \<Rightarrow>
          Inr \<lparr>success = True, strategy = SERVER_AUTHORITATIVE,
               resolvedState = deepClone resolved,
               rollbackRequired = (\<not> isServerAuthority cr),
               compensationMoves = moves\<rparr>)"

definition resolveClientAuthoritative ::
  "ConflictResolver \<Rightarrow> Conflict \<Rightarrow> StateSnapshot \<Rightarrow> StateSnapshot \<Rightarrow> error + ResolutionResult" where
  "resolveClientAuthoritative cr conflict localSt remoteSt =
     Inr \<lparr>success = True, strategy = CLIENT_AUTHORITATIVE,
          resolvedState = deepClone localSt,
          rollbackRequired = False,
          compensationMoves = []\<rparr>"

definition resolveLatestTimestamp ::
  "ConflictResolver \<Rightarrow> Conflict \<Rightarrow> StateSnapshot \<Rightarrow> StateSnapshot \<Rightarrow> error + ResolutionResult" where
  "resolveLatestTimestamp cr conflict localSt remoteSt =
     (let useLocal = (StateSnapshot.timestamp localSt \<ge> StateSnapshot.timestamp remoteSt);
          resolved = (if useLocal then localSt else remoteSt) in
      case (if useLocal then Inr [] else generateCompensationMoves localSt resolved) of
        Inl e \<Rightarrow> Inl e
      | Inr moves \<Rightarrow>
          Inr \<lparr>success = True, strategy = LATEST_TIMESTAMP,
               resolvedState = deepClone resolved,
               rollbackRequired = (\<not> useLocal),
               compensationMoves = moves\<rparr>)"

definition resolveMerge ::
  "ConflictResolver \<Rightarrow> Conflict \<Rightarrow> StateSnapshot \<Rightarrow> StateSnapshot \<Rightarrow> error + ResolutionResult" where
  "resolveMerge cr conflict localSt remoteSt =
     (let merged0 = deepClone localSt;
          merged1 = merged0\<lparr>
            playerScore := max (playerScore localSt) (playerScore remoteSt),
            opponentScore := max (opponentScore localSt) (opponentScore remoteSt),
            playerMoves := max (playerMoves localSt) (playerMoves remoteSt),
            opponentMoves := max (opponentMoves localSt) (opponentMoves remoteSt),
            eventProgress := max (eventProgress localSt) (eventProgress remoteSt)\<rparr>;
          merged2 =
            (if StateSnapshot.timestamp remoteSt > StateSnapshot.timestamp localSt
             then merged1\<lparr>StateSnapshot.timestamp := StateSnapshot.timestamp remoteSt,
                          currentTurn := currentTurn remoteSt,
                          activeEvents := activeEvents remoteSt\<rparr>
             else merged1);
          merged = merged2\<lparr>
            playerGrid := mergeGrids (playerGrid localSt) (opponentGrid remoteSt),
            opponentGrid := mergeGrids (opponentGrid localSt) (playerGrid remoteSt),
            version := max (version localSt) (version remoteSt) + 1\<rparr> in
      case generateCompensationMoves localSt merged of
        Inl e \<Rightarrow> Inl e
      | Inr moves \<Rightarrow>
          Inr \<lparr>success = True, strategy = MERGE,
               resolvedState = merged,
               rollbackRequired = False,
               compensationMoves = moves\<rparr>)"

definition resolveRollback ::
  "ConflictResolver \<Rightarrow> Conflict \<Rightarrow> StateSnapshot \<Rightarrow> StateSnapshot \<Rightarrow> error + ResolutionResult" where
  "resolveRollback cr conflict localSt remoteSt =
     (let olderState = (if version localSt < version remoteSt then localSt else remoteSt) in
      Inr \<lparr>success = True, strategy = ROLLBACK,
           resolvedState = deepClone olderState,
           rollbackRequired = True,
           compensationMoves = []\<rparr>)"

text \<open>\<^verbatim>\<open>resolveConflict\<close>: the counters are bumped before the \<^verbatim>\<open>try\<close>; an exception
  of a strategy is caught and turned into a failed result that keeps the local state.\<close>

definition resolveConflict ::
  "ConflictResolver \<Rightarrow> Conflict \<Rightarrow> StateSnapshot \<Rightarrow> StateSnapshot
     \<Rightarrow> ResolutionResult \<times> ConflictResolver" where
  "resolveConflict cr conflict localSt remoteSt =
     (let st0 = stats cr;
          st1 = st0\<lparr>totalConflicts := totalConflicts st0 + 1,
                    byType := (byType st0)(Conflict.type conflict :=
                                 byType st0 (Conflict.type conflict) + 1)\<rparr>;
          attempt =
            (case ConflictResolver.strategy cr of
               SERVER_AUTHORITATIVE \<Rightarrow> resolveServerAuthoritative cr conflict localSt remoteSt
             | CLIENT_AUTHORITATIVE \<Rightarrow> resolveClientAuthoritative cr conflict localSt remoteSt
             | LATEST_TIMESTAMP \<Rightarrow> resolveLatestTimestamp cr conflict localSt remoteSt
             | MERGE \<Rightarrow> resolveMerge cr conflict localSt remoteSt
             | ROLLBACK \<Rightarrow> resolveRollback cr conflict localSt remoteSt)
      in case attempt of
           Inr result \<Rightarrow>
             (let st2 = (if success result
                         then st1\<lparr>resolvedConflicts := resolvedConflicts st1 + 1\<rparr>
                         else st1\<lparr>failedResolutions := failedResolutions st1 + 1\<rparr>);
                  st3 = st2\<lparr>byStrategy := (byStrategy st2)(ResolutionResult.strategy result :=
                                   byStrategy st2 (ResolutionResult.strategy result) + 1)\<rparr>
              in (result, cr\<lparr>stats := st3\<rparr>))
         | Inl e \<Rightarrow>
             (\<lparr>success = False, strategy = ConflictResolver.strategy cr,
               resolvedState = localSt,
               rollbackRequired = True,
               compensationMoves = []\<rparr>,
              cr\<lparr>stats := st1\<lparr>failedResolutions := failedResolutions st1 + 1\<rparr>\<rparr>))"

section \<open>StateSynchronizer\<close>

datatype StateChangeType =
  GRID_UPDATE | SCORE_UPDATE | MOVES_UPDATE | EVENT_UPDATE | TURN_UPDATE

datatype SyncMode = FULL | DELTA | HYBRID

record StateChange =
  type :: StateChangeType
  path :: string
  "value" :: change_value
  oldValue :: change_value

record StateDelta =
  version :: int
  baseVersion :: int
  changes :: "StateChange list"
  timestamp :: int

text \<open>The statistics without the two floating-point running means
  (\<^verbatim>\<open>averageDeltaSize\<close>, \<^verbatim>\<open>averageLatency\<close>).\<close>

record SyncStats =
  totalSyncs :: nat
  fullSyncs :: nat
  deltaSyncs :: nat
  conflictCount :: nat
  lastSyncTime :: int

record StateSynchronizer =
  currentSnapshot :: "StateSnapshot option"
  previousSnapshot :: "StateSnapshot option"
  version :: int
  syncMode :: SyncMode
  stats :: SyncStats

text \<open>The two private configuration fields; nothing assigns them after construction.\<close>

definition maxDeltaSize :: nat where
  "maxDeltaSize = 50"

definition snapshotInterval :: nat where
  "snapshotInterval = 10"

definition new_StateSynchronizer :: "SyncMode \<Rightarrow> StateSynchronizer" where
  "new_StateSynchronizer mode =
     \<lparr>currentSnapshot = None, previousSnapshot = None, StateSynchronizer.version = 0,
      syncMode = mode,
      StateSynchronizer.stats = \<lparr>totalSyncs = 0, fullSyncs = 0, deltaSyncs = 0,
                                 conflictCount = 0, lastSyncTime = 0\<rparr>\<rparr>"

definition createSnapshot ::
  "int \<Rightarrow> grid \<Rightarrow> grid \<Rightarrow> int \<Rightarrow> int \<Rightarrow> int \<Rightarrow> int \<Rightarrow> int \<Rightarrow> GameEventType list \<Rightarrow> string
     \<Rightarrow> StateSynchronizer \<Rightarrow> StateSnapshot \<times> StateSynchronizer" where
  "createSnapshot now pGrid oGrid pScore oScore pMoves oMoves progress events turn st =
     (let v = StateSynchronizer.version st + 1;
          snapshot = \<lparr>StateSnapshot.timestamp = now, version = v,
                      playerGrid = deepClone pGrid, opponentGrid = deepClone oGrid,
                      playerScore = pScore, opponentScore = oScore,
                      playerMoves = pMoves, opponentMoves = oMoves,
                      eventProgress = progress, activeEvents = events, currentTurn = turn\<rparr>
      in (snapshot,
          st\<lparr>StateSynchronizer.version := v,
             previousSnapshot := currentSnapshot st,
             currentSnapshot := Some snapshot\<rparr>))"

subsection \<open>Paths of grid changes\<close>

text \<open>Decimal digits of a natural number, as a template literal prints an array index.\<close>

definition digit_char :: "nat \<Rightarrow> char" where
  "digit_char d = char_of (48 + d)"

fun show_nat :: "nat \<Rightarrow> string" where
  "show_nat n = (if n < 10 then [digit_char n] else show_nat (n div 10) @ [digit_char (n mod 10)])"

declare show_nat.simps [simp del]

definition grid_path :: "string \<Rightarrow> nat \<Rightarrow> nat \<Rightarrow> string" where
  "grid_path p r c = p @ ''['' @ show_nat r @ '']['' @ show_nat c @ '']''"

text \<open>The regular expression \<^verbatim>\<open>^(playerGrid|opponentGrid)\[(\d+)\]\[(\d+)\]$\<close> and the two
  \<^verbatim>\<open>parseInt(_, 10)\<close>: \<open>match_index\<close> reads one \<^verbatim>\<open>[digits]\<close> group.\<close>

definition is_digit :: "char \<Rightarrow> bool" where
  "is_digit ch = (48 \<le> (of_char ch :: nat) \<and> (of_char ch :: nat) \<le> 57)"

definition parseInt :: "string \<Rightarrow> nat" where
  "parseInt ds = foldl (\<lambda>n ch. 10 * n + ((of_char ch :: nat) - 48)) 0 ds"

definition match_index :: "string \<Rightarrow> (nat \<times> string) option" where
  "match_index s =
     (case s of
        [] \<Rightarrow> None
      | ch # rest \<Rightarrow>
          if ch \<noteq> CHR ''['' then None
          else let ds = takeWhile is_digit rest; after = dropWhile is_digit rest in
               if ds = [] then None
               else (case after of
                       [] \<Rightarrow> None
                     | ch' # rest' \<Rightarrow> if ch' = CHR '']'' then Some (parseInt ds, rest') else None))"

definition match_grid_path :: "string \<Rightarrow> (string \<times> nat \<times> nat) option" where
  "match_grid_path p =
     (let named = (if take 10 p = ''playerGrid'' then Some (''playerGrid'', drop 10 p)
                   else if take 12 p = ''opponentGrid'' then Some (''opponentGrid'', drop 12 p)
                   else None)
      in case named of
           None \<Rightarrow> None
         | Some (gridName, s1) \<Rightarrow>
             (case match_index s1 of
                None \<Rightarrow> None
              | Some (r, s2) \<Rightarrow>
                  (case match_index s2 of
                     None \<Rightarrow> None
                   | Some (c, s3) \<Rightarrow> if s3 = [] then Some (gridName, r, c) else None)))"

subsection \<open>Delta generation\<close>

text \<open>\<^verbatim>\<open>StateSynchronizer.compareGrids\<close>: walks the old grid; \<^verbatim>\<open>newGrid[row][col]\<close> throws
  when the new grid has no such row and reads \<^verbatim>\<open>undefined\<close> past the end of a row.\<close>

definition compare_cell ::
  "grid \<Rightarrow> grid \<Rightarrow> string \<Rightarrow> nat \<Rightarrow> nat \<Rightarrow> StateChange list \<Rightarrow> error + StateChange list" where
  "compare_cell oldGrid newGrid p r c chs =
     (case cell_at newGrid r c of
        Inl e \<Rightarrow> Inl e
      | Inr new \<Rightarrow>
          Inr (if Some (oldGrid ! r ! c) \<noteq> new
               then chs @ [\<lparr>StateChange.type = GRID_UPDATE, path = grid_path p r c,
                            value = (case new of None \<Rightarrow> Undefined | Some x \<Rightarrow> Cell x),
                            oldValue = Cell (oldGrid ! r ! c)\<rparr>]
               else chs))"

definition compareGrids_changes ::
  "grid \<Rightarrow> grid \<Rightarrow> string \<Rightarrow> StateChange list \<Rightarrow> error + StateChange list" where
  "compareGrids_changes oldGrid newGrid p chs =
     for_each [0 ..< length oldGrid]
       (\<lambda>r. for_each [0 ..< length (oldGrid ! r)] (\<lambda>c. compare_cell oldGrid newGrid p r c)) chs"

definition scalar_changes :: "StateSnapshot \<Rightarrow> StateSnapshot \<Rightarrow> StateChange list" where
  "scalar_changes previous current =
     (if playerScore previous \<noteq> playerScore current
      then [\<lparr>StateChange.type = SCORE_UPDATE, path = ''playerScore'',
             value = Number (playerScore current), oldValue = Number (playerScore previous)\<rparr>]
      else []) @
     (if opponentScore previous \<noteq> opponentScore current
      then [\<lparr>StateChange.type = SCORE_UPDATE, path = ''opponentScore'',
             value = Number (opponentScore current), oldValue = Number (opponentScore previous)\<rparr>]
      else []) @
     (if playerMoves previous \<noteq> playerMoves current
      then [\<lparr>StateChange.type = MOVES_UPDATE, path = ''playerMoves'',
             value = Number (playerMoves current), oldValue = Number (playerMoves previous)\<rparr>]
      else []) @
     (if opponentMoves previous \<noteq> opponentMoves current
      then [\<lparr>StateChange.type = MOVES_UPDATE, path = ''opponentMoves'',
             value = Number (opponentMoves current), oldValue = Number (opponentMoves previous)\<rparr>]
      else []) @
     (if eventProgress previous \<noteq> eventProgress current
      then [\<lparr>StateChange.type = EVENT_UPDATE, path = ''eventProgress'',
             value = Number (eventProgress current), oldValue = Number (eventProgress previous)\<rparr>]
      else []) @
     (if activeEvents previous \<noteq> activeEvents current
      then [\<lparr>StateChange.type = EVENT_UPDATE, path = ''activeEvents'',
             value = Events (activeEvents current), oldValue = Events (activeEvents previous)\<rparr>]
      else []) @
     (if currentTurn previous \<noteq> currentTurn current
      then [\<lparr>StateChange.type = TURN_UPDATE, path = ''currentTurn'',
             value = Text (currentTurn current), oldValue = Text (currentTurn previous)\<rparr>]
      else [])"

definition generateDelta :: "int \<Rightarrow> StateSynchronizer \<Rightarrow> error + StateDelta option" where
  "generateDelta now st =
     (case (currentSnapshot st, previousSnapshot st) of
        (Some current, Some previous) \<Rightarrow>
          (case compareGrids_changes (playerGrid previous) (playerGrid current) ''playerGrid'' [] of
             Inl e \<Rightarrow> Inl e
           | Inr chs1 \<Rightarrow>
               (case compareGrids_changes (opponentGrid previous) (opponentGrid current)
                       ''opponentGrid'' chs1 of
                  Inl e \<Rightarrow> Inl e
                | Inr chs2 \<Rightarrow>
                    (let chs = chs2 @ scalar_changes previous current in
                     if length chs = 0 then Inr None
                     else Inr (Some \<lparr>StateDelta.version = StateSnapshot.version current,
                                      baseVersion = StateSnapshot.version previous,
                                      changes = chs,
                                      StateDelta.timestamp = now\<rparr>))))
      | _ \<Rightarrow> Inr None)"

subsection \<open>Delta application\<close>



text \<open>An array index is a number below \<^verbatim>\<open>4294967295\<close> (2 to the 32, minus 1).\<close>

definition is_array_index :: "nat \<Rightarrow> bool" where
  "is_array_index c = (int c < 4294967295)"

text \<open>\<^verbatim>\<open>row[col] = value\<close> on an array: inside the row it overwrites; past its end it
  extends the row, leaving holes between the old end and \<^verbatim>\<open>col\<close>. With a number that is
  not an array index the assignment adds a named property to the array object and
  leaves its elements and its length as they were (the model does not keep such
  properties; \<^verbatim>\<open>JSON.stringify\<close> does not see them).\<close>

definition set_index ::
  "change_value option list \<Rightarrow> nat \<Rightarrow> change_value \<Rightarrow> change_value option list" where
  "set_index r c v =
     (if is_array_index c
      then (if c < length r then r[c := Some v]
            else r @ replicate (c - length r) None @ [Some v])
      else r)"





subsection \<open>Choice between a full snapshot and a delta\<close>

definition shouldUseDeltaSync :: "int \<Rightarrow> StateSynchronizer \<Rightarrow> error + bool" where
  "shouldUseDeltaSync now st =
     (if syncMode st = FULL then Inr False
      else if syncMode st = DELTA then Inr True
      else if previousSnapshot st = None then Inr False
      else if totalSyncs (StateSynchronizer.stats st) mod snapshotInterval = 0 then Inr False
      else (case generateDelta now st of
              Inl e \<Rightarrow> Inl e
            | Inr None \<Rightarrow> Inr True
            | Inr (Some delta) \<Rightarrow> Inr (length (changes delta) \<le> maxDeltaSize)))"

datatype SyncData = FullState StateSnapshot | DeltaState StateDelta

definition prepareSyncData ::
  "int \<Rightarrow> StateSynchronizer \<Rightarrow> error + (SyncData option \<times> StateSynchronizer)" where
  "prepareSyncData now st =
     (case currentSnapshot st of
        None \<Rightarrow> Inr (None, st)
      | Some current \<Rightarrow>
          (case shouldUseDeltaSync now st of
             Inl e \<Rightarrow> Inl e
           | Inr useDelta \<Rightarrow>
               if useDelta
               then (let st' = st\<lparr>StateSynchronizer.stats :=
                                 (StateSynchronizer.stats st)\<lparr>deltaSyncs :=
                                    deltaSyncs (StateSynchronizer.stats st) + 1\<rparr>\<rparr> in
                     case generateDelta now st' of
                       Inl e \<Rightarrow> Inl e
                     | Inr delta \<Rightarrow> Inr (map_option DeltaState delta, st'))
               else Inr (Some (FullState current),
                         st\<lparr>StateSynchronizer.stats :=
                              (StateSynchronizer.stats st)\<lparr>fullSyncs :=
                                 fullSyncs (StateSynchronizer.stats st) + 1\<rparr>\<rparr>)))"

definition updateStats :: "int \<Rightarrow> bool \<Rightarrow> StateSynchronizer \<Rightarrow> StateSynchronizer" where
  "updateStats now hasConflict st =
     (let s0 = StateSynchronizer.stats st;
          s1 = s0\<lparr>totalSyncs := totalSyncs s0 + 1\<rparr>;
          s2 = (if hasConflict then s1\<lparr>conflictCount := conflictCount s1 + 1\<rparr> else s1)
      in st\<lparr>StateSynchronizer.stats := s2\<lparr>lastSyncTime := now\<rparr>\<rparr>)"

section \<open>ReconnectionManager: the snapshot store\<close>

text \<open>The reconnection blob. The store never looks into \<^verbatim>\<open>state\<close> (a
  \<^verbatim>\<open>StateSyncData\<close>) or into the entries of \<^verbatim>\<open>moveHistory\<close>, so both are type
  parameters.\<close>

record ('s, 'm) GameStateSnapshot =
  timestamp :: int
  roomId :: string
  playerId :: string
  opponentId :: string
  state :: 's
  moveHistory :: "'m list"
  lastSyncedMove :: int

text \<open>\<^verbatim>\<open>localStorage\<close>: a map from keys to strings. A stored string is either a key
  (the value of \<^verbatim>\<open>latest_snapshot_key\<close>) or the JSON text of a blob, which stands for
  the blob. \<open>full\<close> is the state in which \<^verbatim>\<open>setItem\<close> throws (quota exceeded).\<close>

datatype ('s, 'm) item = KeyItem string | SnapshotItem "('s, 'm) GameStateSnapshot"

record ('s, 'm) LocalStorage =
  items :: "string \<Rightarrow> ('s, 'm) item option"
  full :: bool

datatype storage_error = QuotaExceededError

definition setItem ::
  "string \<Rightarrow> ('s, 'm) item \<Rightarrow> ('s, 'm) LocalStorage \<Rightarrow> storage_error + ('s, 'm) LocalStorage" where
  "setItem k v ls =
     (if full ls then Inl QuotaExceededError else Inr (ls\<lparr>items := (items ls)(k \<mapsto> v)\<rparr>))"

record ('s, 'm) ReconnectionManager =
  stateSnapshots :: "('s, 'm) GameStateSnapshot list"
  lastSnapshotTime :: int
  disconnectTime :: int

definition maxSnapshots :: nat where
  "maxSnapshots = 10"

text \<open>\<^verbatim>\<open>ReconnectionManager.snapshotInterval\<close>, in milliseconds.\<close>

definition snapshotInterval_ms :: int where
  "snapshotInterval_ms = 5000"

text \<open>\<^verbatim>\<open>saveToLocalStorage\<close>: the two writes sit in one \<^verbatim>\<open>try\<close>; an exception is
  logged and swallowed, and what was written before it stays.\<close>

definition saveToLocalStorage ::
  "('s, 'm) GameStateSnapshot \<Rightarrow> ('s, 'm) LocalStorage \<Rightarrow> ('s, 'm) LocalStorage" where
  "saveToLocalStorage snapshot ls =
     (let key = ''game_snapshot_'' @ roomId snapshot in
      case setItem key (SnapshotItem snapshot) ls of
        Inl e \<Rightarrow> ls
      | Inr ls1 \<Rightarrow>
          (case setItem ''latest_snapshot_key'' (KeyItem key) ls1 of
             Inl e \<Rightarrow> ls1
           | Inr ls2 \<Rightarrow> ls2))"

definition loadFromLocalStorage :: "('s, 'm) LocalStorage \<Rightarrow> ('s, 'm) GameStateSnapshot option" where
  "loadFromLocalStorage ls =
     (case items ls ''latest_snapshot_key'' of
        Some (KeyItem key) \<Rightarrow>
          (case items ls key of Some (SnapshotItem snapshot) \<Rightarrow> Some snapshot | _ \<Rightarrow> None)
      | _ \<Rightarrow> None)"

definition saveSnapshot ::
  "int \<Rightarrow> ('s, 'm) GameStateSnapshot \<Rightarrow> ('s, 'm) ReconnectionManager \<times> ('s, 'm) LocalStorage
     \<Rightarrow> ('s, 'm) ReconnectionManager \<times> ('s, 'm) LocalStorage" where
  "saveSnapshot now snapshot mgr_ls =
     (case mgr_ls of (mgr, ls) \<Rightarrow>
        if now - lastSnapshotTime mgr < snapshotInterval_ms then (mgr, ls)
        else let pushed = stateSnapshots mgr @ [snapshot];
                 kept = (if length pushed > maxSnapshots then tl pushed else pushed)
             in (mgr\<lparr>stateSnapshots := kept, lastSnapshotTime := now\<rparr>,
                 saveToLocalStorage snapshot ls))"

definition getLatestSnapshot ::
  "('s, 'm) ReconnectionManager \<times> ('s, 'm) LocalStorage \<Rightarrow> ('s, 'm) GameStateSnapshot option" where
  "getLatestSnapshot mgr_ls =
     (case mgr_ls of (mgr, ls) \<Rightarrow>
        if length (stateSnapshots mgr) = 0 then loadFromLocalStorage ls
        else Some (last (stateSnapshots mgr)))"

section \<open>The battle server\<close>

text \<open>
  \<^verbatim>\<open>server/battleServer.cjs\<close>. A socket object is named by a number; the field
  \<open>sockets\<close> of the server state is the heap of socket objects. Of a socket the model
  keeps its \<^verbatim>\<open>readyState\<close>, the \<^verbatim>\<open>playerId\<close> property that \<^verbatim>\<open>handleConnect\<close> sets, and
  the messages handed to \<^verbatim>\<open>ws.send\<close>, oldest first (\<^verbatim>\<open>JSON.stringify\<close> of a message
  stands for the message). One handler call reads one clock value \<open>now\<close>.
\<close>

datatype ReadyState = CONNECTING | OPEN | CLOSING | CLOSED

text \<open>The tags of \<^verbatim>\<open>NetworkMessageType\<close>, and the two further tags the server sends.\<close>

datatype MessageType =
  CONNECT | DISCONNECT | CREATE_ROOM | JOIN_ROOM | LEAVE_ROOM | ROOM_CREATED | ROOM_JOINED
| ROOM_FULL | ROOM_NOT_FOUND | MOVE | STATE_SYNC | EVENT | GAME_START | GAME_END | CHAT
| PING | PONG | ERROR | PLAYER_LEFT | PLAYER_DISCONNECTED

record MoveData =
  pos1 :: Position
  pos2 :: Position
  moveNumber :: int

text \<open>The \<^verbatim>\<open>data\<close> objects the server builds, with their fields in order:
  \<^verbatim>\<open>{status, playerId}\<close>, \<^verbatim>\<open>{roomId}\<close>, \<^verbatim>\<open>{roomId, opponentId, playerCount}\<close>,
  \<^verbatim>\<open>{roomId, players, startingPlayer}\<close>, \<^verbatim>\<open>{roomId, opponentId}\<close>, the move of a
  \<^verbatim>\<open>MOVE\<close>, and \<^verbatim>\<open>{playerId}\<close>. \<open>None\<close> is \<^verbatim>\<open>null\<close>.\<close>

datatype Data =
  ConnectedData string string
| RoomIdData string
| RoomJoinedData string "string option" nat
| GameStartData string "string list" "string option"
| MatchFoundData string string
| MoveMessageData MoveData
| PlayerIdData string

record Message =
  type :: MessageType
  data :: Data
  timestamp :: int
  playerId :: string
  messageId :: "string option"

record WebSocket =
  readyState :: ReadyState
  playerId :: "string option"
  sent :: "Message list"

type_synonym sockets = "nat \<Rightarrow> WebSocket"

subsection \<open>BattleRoom\<close>

record Player =
  playerId :: string
  ws :: nat

record PlayerState =
  score :: int
  moves :: int
  connected :: bool

record MoveRecord =
  playerId :: string
  move :: MoveData
  timestamp :: int

record RoomState =
  gameStarted :: bool
  currentTurn :: "string option"
  playerStates :: "string \<Rightarrow> PlayerState option"
  moveHistory :: "MoveRecord list"

text \<open>The field \<^verbatim>\<open>id\<close> of a room is \<open>room_id\<close> here; \<^verbatim>\<open>maxPlayers\<close> is set to 2 by the
  constructor and never assigned again.\<close>

record BattleRoom =
  room_id :: string
  players :: "Player list"
  state :: RoomState
  createdAt :: int

definition maxPlayers :: nat where
  "maxPlayers = 2"

definition new_BattleRoom :: "int \<Rightarrow> string \<Rightarrow> BattleRoom" where
  "new_BattleRoom now rid =
     \<lparr>room_id = rid, players = [],
      BattleRoom.state = \<lparr>gameStarted = False, RoomState.currentTurn = None,
                            playerStates = Map.empty, RoomState.moveHistory = []\<rparr>,
      createdAt = now\<rparr>"

text \<open>\<^verbatim>\<open>ws.send(JSON.stringify(message))\<close>.\<close>

definition ws_send :: "nat \<Rightarrow> Message \<Rightarrow> sockets \<Rightarrow> sockets" where
  "ws_send w m socks = socks(w := (socks w)\<lparr>sent := sent (socks w) @ [m]\<rparr>)"

definition broadcast :: "BattleRoom \<Rightarrow> Message \<Rightarrow> string option \<Rightarrow> sockets \<Rightarrow> sockets" where
  "broadcast room message excludePlayerId socks =
     fold (\<lambda>player socks.
             if Some (Player.playerId player) \<noteq> excludePlayerId
                \<and> readyState (socks (ws player)) = OPEN
             then ws_send (ws player) message socks else socks)
          (players room) socks"

text \<open>\<^verbatim>\<open>startGame\<close> reads \<^verbatim>\<open>this.players[0].playerId\<close>, which throws in a room without
  players.\<close>

definition startGame :: "int \<Rightarrow> BattleRoom \<Rightarrow> sockets \<Rightarrow> error + BattleRoom \<times> sockets" where
  "startGame now room socks =
     (case players room of
        [] \<Rightarrow> Inl TypeError
      | first # _ \<Rightarrow>
          (let room' = room\<lparr>BattleRoom.state := (BattleRoom.state room)
                              \<lparr>gameStarted := True,
                               RoomState.currentTurn := Some (Player.playerId first)\<rparr>\<rparr>
           in Inr (room',
                   broadcast room'
                     \<lparr>Message.type = GAME_START,
                      data = GameStartData (room_id room') (map Player.playerId (players room'))
                               (RoomState.currentTurn (BattleRoom.state room')),
                      Message.timestamp = now, Message.playerId = ''server'',
                      messageId = None\<rparr>
                     None socks)))"

definition addPlayer ::
  "int \<Rightarrow> string \<Rightarrow> nat \<Rightarrow> BattleRoom \<Rightarrow> sockets \<Rightarrow> error + bool \<times> BattleRoom \<times> sockets" where
  "addPlayer now pid w room socks =
     (if length (players room) \<ge> maxPlayers then Inr (False, room, socks)
      else let room1 = room\<lparr>players := players room @ [\<lparr>Player.playerId = pid, ws = w\<rparr>],
                             BattleRoom.state := (BattleRoom.state room)
                               \<lparr>playerStates := (playerStates (BattleRoom.state room))
                                  (pid \<mapsto> \<lparr>score = 0, moves = 0, connected = True\<rparr>)\<rparr>\<rparr>
           in if length (players room1) = maxPlayers
              then (case startGame now room1 socks of
                      Inl e \<Rightarrow> Inl e
                    | Inr (room2, socks2) \<Rightarrow> Inr (True, room2, socks2))
              else Inr (True, room1, socks))"

text \<open>\<^verbatim>\<open>findIndex\<close> and \<^verbatim>\<open>splice(index, 1)\<close>: the first entry that satisfies the test
  goes.\<close>

fun remove_first :: "('a \<Rightarrow> bool) \<Rightarrow> 'a list \<Rightarrow> 'a list" where
  "remove_first P [] = []"
| "remove_first P (x # xs) = (if P x then xs else x # remove_first P xs)"

definition removePlayer :: "string \<Rightarrow> BattleRoom \<Rightarrow> BattleRoom" where
  "removePlayer pid room =
     (if \<exists>p \<in> set (players room). Player.playerId p = pid
      then room\<lparr>players := remove_first (\<lambda>p. Player.playerId p = pid) (players room),
                BattleRoom.state := (BattleRoom.state room)
                  \<lparr>playerStates := (playerStates (BattleRoom.state room))(pid := None)\<rparr>\<rparr>
      else room)"

text \<open>\<^verbatim>\<open>BattleRoom.handleMove\<close>.\<close>

definition room_handleMove ::
  "int \<Rightarrow> string \<Rightarrow> MoveData \<Rightarrow> BattleRoom \<Rightarrow> sockets \<Rightarrow> BattleRoom \<times> sockets" where
  "room_handleMove now pid moveData room socks =
     (let room' = room\<lparr>BattleRoom.state := (BattleRoom.state room)
                         \<lparr>RoomState.moveHistory := RoomState.moveHistory (BattleRoom.state room) @
                            [\<lparr>MoveRecord.playerId = pid, move = moveData,
                              MoveRecord.timestamp = now\<rparr>]\<rparr>\<rparr>
      in (room',
          broadcast room'
            \<lparr>Message.type = MOVE, data = MoveMessageData moveData, Message.timestamp = now,
             Message.playerId = pid, messageId = None\<rparr>
            (Some pid) socks))"

definition isFull :: "BattleRoom \<Rightarrow> bool" where
  "isFull room = (length (players room) \<ge> maxPlayers)"

definition isEmpty :: "BattleRoom \<Rightarrow> bool" where
  "isEmpty room = (length (players room) = 0)"

subsection \<open>BattleServer\<close>

record QueueEntry =
  playerId :: string
  ws :: nat
  timestamp :: int

text \<open>\<^verbatim>\<open>rooms\<close> is a \<^verbatim>\<open>Map\<close>: an association list in insertion order, with one entry
  per key.\<close>

record BattleServer =
  rooms :: "(string \<times> BattleRoom) list"
  clients :: "string \<Rightarrow> nat option"
  matchmakingQueue :: "QueueEntry list"
  sockets :: sockets

definition rooms_get :: "(string \<times> BattleRoom) list \<Rightarrow> string \<Rightarrow> BattleRoom option" where
  "rooms_get rs rid = map_of rs rid"

fun rooms_set :: "string \<Rightarrow> BattleRoom \<Rightarrow> (string \<times> BattleRoom) list \<Rightarrow> (string \<times> BattleRoom) list" where
  "rooms_set rid room [] = [(rid, room)]"
| "rooms_set rid room ((k, v) # rs) =
     (if k = rid then (rid, room) # rs else (k, v) # rooms_set rid room rs)"

definition rooms_delete :: "string \<Rightarrow> (string \<times> BattleRoom) list \<Rightarrow> (string \<times> BattleRoom) list" where
  "rooms_delete rid rs = filter (\<lambda>(k, v). k \<noteq> rid) rs"

text \<open>\<^verbatim>\<open>BattleServer.send\<close>.\<close>

definition send :: "nat \<Rightarrow> Message \<Rightarrow> sockets \<Rightarrow> sockets" where
  "send w message socks =
     (if readyState (socks w) = OPEN then ws_send w message socks else socks)"

definition handleConnect :: "int \<Rightarrow> nat \<Rightarrow> string \<Rightarrow> BattleServer \<Rightarrow> BattleServer" where
  "handleConnect now w pid srv =
     (let socks1 = (sockets srv)(w := (sockets srv w)\<lparr>WebSocket.playerId := Some pid\<rparr>)
      in srv\<lparr>clients := (clients srv)(pid \<mapsto> w),
             sockets := send w \<lparr>Message.type = CONNECT, data = ConnectedData ''connected'' pid,
                               Message.timestamp = now, Message.playerId = ''server'',
                               messageId = None\<rparr> socks1\<rparr>)"

text \<open>\<^verbatim>\<open>handleCreateRoom\<close>; \<open>rid\<close> is what \<^verbatim>\<open>generateRoomId()\<close> returned (a clock
  reading and six random characters).\<close>

definition handleCreateRoom ::
  "int \<Rightarrow> string \<Rightarrow> nat \<Rightarrow> string \<Rightarrow> string option \<Rightarrow> BattleServer \<Rightarrow> error + BattleServer" where
  "handleCreateRoom now rid w pid mid srv =
     (case addPlayer now pid w (new_BattleRoom now rid) (sockets srv) of
        Inl e \<Rightarrow> Inl e
      | Inr (added, room, socks) \<Rightarrow>
          Inr (srv\<lparr>rooms := rooms_set rid room (rooms srv),
                   sockets := send w \<lparr>Message.type = ROOM_CREATED, data = RoomIdData rid,
                                     Message.timestamp = now, Message.playerId = ''server'',
                                     messageId = mid\<rparr> socks\<rparr>))"

text \<open>\<^verbatim>\<open>handleJoinRoom(ws, message)\<close> with \<^verbatim>\<open>message.data = {roomId, playerId}\<close> and
  \<^verbatim>\<open>message.messageId\<close>.\<close>

definition handleJoinRoom ::
  "int \<Rightarrow> nat \<Rightarrow> string \<Rightarrow> string \<Rightarrow> string option \<Rightarrow> BattleServer \<Rightarrow> error + BattleServer" where
  "handleJoinRoom now w rid pid mid srv =
     (case rooms_get (rooms srv) rid of
        None \<Rightarrow>
          Inr (srv\<lparr>sockets := send w \<lparr>Message.type = ROOM_NOT_FOUND, data = RoomIdData rid,
                                     Message.timestamp = now, Message.playerId = ''server'',
                                     messageId = mid\<rparr> (sockets srv)\<rparr>)
      | Some room \<Rightarrow>
          if isFull room
          then Inr (srv\<lparr>sockets := send w \<lparr>Message.type = ROOM_FULL, data = RoomIdData rid,
                                          Message.timestamp = now, Message.playerId = ''server'',
                                          messageId = mid\<rparr> (sockets srv)\<rparr>)
          else (case addPlayer now pid w room (sockets srv) of
                  Inl e \<Rightarrow> Inl e
                | Inr (added, room', socks1) \<Rightarrow>
                    (let opponent = find (\<lambda>p. Player.playerId p \<noteq> pid) (players room');
                         socks2 = send w
                           \<lparr>Message.type = ROOM_JOINED,
                            data = RoomJoinedData rid (map_option Player.playerId opponent)
                                     (length (players room')),
                            Message.timestamp = now, Message.playerId = ''server'',
                            messageId = mid\<rparr> socks1;
                         socks3 = (case opponent of
                                     None \<Rightarrow> socks2
                                   | Some opp \<Rightarrow>
                                       send (Player.ws opp)
                                         \<lparr>Message.type = ROOM_JOINED,
                                          data = RoomJoinedData rid (Some pid)
                                                   (length (players room')),
                                          Message.timestamp = now,
                                          Message.playerId = ''server'',
                                          messageId = None\<rparr> socks2)
                     in Inr (srv\<lparr>rooms := rooms_set rid room' (rooms srv),
                                 sockets := socks3\<rparr>))))"

text \<open>\<^verbatim>\<open>BattleServer.handleMove(ws, message)\<close> with
  \<^verbatim>\<open>message.data = {roomId, move}\<close> and \<^verbatim>\<open>message.playerId\<close>; the socket is not used.\<close>

definition handleMove ::
  "int \<Rightarrow> nat \<Rightarrow> string \<Rightarrow> MoveData \<Rightarrow> string \<Rightarrow> BattleServer \<Rightarrow> BattleServer" where
  "handleMove now w rid mv pid srv =
     (case rooms_get (rooms srv) rid of
        None \<Rightarrow> srv
      | Some room \<Rightarrow>
          (case room_handleMove now pid mv room (sockets srv) of
             (room', socks) \<Rightarrow> srv\<lparr>rooms := rooms_set rid room' (rooms srv), sockets := socks\<rparr>))"

definition handleMatchmakingRequest :: "int \<Rightarrow> nat \<Rightarrow> string \<Rightarrow> BattleServer \<Rightarrow> BattleServer" where
  "handleMatchmakingRequest now w pid srv =
     srv\<lparr>matchmakingQueue := matchmakingQueue srv @
            [\<lparr>QueueEntry.playerId = pid, QueueEntry.ws = w, QueueEntry.timestamp = now\<rparr>]\<rparr>"

definition handleCancelMatchmaking :: "nat \<Rightarrow> string \<Rightarrow> BattleServer \<Rightarrow> BattleServer" where
  "handleCancelMatchmaking w pid srv =
     srv\<lparr>matchmakingQueue := remove_first (\<lambda>p. QueueEntry.playerId p = pid) (matchmakingQueue srv)\<rparr>"

text \<open>One round of the \<^verbatim>\<open>while\<close> loop of \<^verbatim>\<open>processMatchmakingQueue\<close>, for the two
  entries shifted off the queue and the room id \<open>rid\<close> that \<^verbatim>\<open>generateRoomId()\<close>
  returned.\<close>

definition match_players ::
  "int \<Rightarrow> string \<Rightarrow> QueueEntry \<Rightarrow> QueueEntry \<Rightarrow> BattleServer \<Rightarrow> error + BattleServer" where
  "match_players now rid player1 player2 srv =
     (case addPlayer now (QueueEntry.playerId player1) (QueueEntry.ws player1)
             (new_BattleRoom now rid) (sockets srv) of
        Inl e \<Rightarrow> Inl e
      | Inr (added1, room1, socks1) \<Rightarrow>
          (case addPlayer now (QueueEntry.playerId player2) (QueueEntry.ws player2) room1 socks1 of
             Inl e \<Rightarrow> Inl e
           | Inr (added2, room2, socks2) \<Rightarrow>
               (let socks3 = send (QueueEntry.ws player1)
                      \<lparr>Message.type = GAME_START,
                       data = MatchFoundData rid (QueueEntry.playerId player2),
                       Message.timestamp = now, Message.playerId = ''server'',
                       messageId = None\<rparr> socks2;
                    socks4 = send (QueueEntry.ws player2)
                      \<lparr>Message.type = GAME_START,
                       data = MatchFoundData rid (QueueEntry.playerId player1),
                       Message.timestamp = now, Message.playerId = ''server'',
                       messageId = None\<rparr> socks3
                in Inr (srv\<lparr>rooms := rooms_set rid room2 (rooms srv), sockets := socks4\<rparr>))))"

text \<open>\<^verbatim>\<open>processMatchmakingQueue\<close>: \<open>newId i\<close> is the room id generated in round \<open>i\<close>.\<close>

function processMatchmakingQueue ::
  "int \<Rightarrow> (nat \<Rightarrow> string) \<Rightarrow> BattleServer \<Rightarrow> error + BattleServer" where
  "processMatchmakingQueue now newId srv =
     (case matchmakingQueue srv of
        player1 # player2 # rest \<Rightarrow>
          (case match_players now (newId 0) player1 player2 (srv\<lparr>matchmakingQueue := rest\<rparr>) of
             Inl e \<Rightarrow> Inl e
           | Inr srv' \<Rightarrow>
               processMatchmakingQueue now (\<lambda>i. newId (Suc i))
                 (srv'\<lparr>matchmakingQueue := rest\<rparr>))
      | _ \<Rightarrow> Inr srv)"
  by pat_completeness auto
termination
  by (relation "measure (\<lambda>(now, newId, srv). length (matchmakingQueue srv))") auto

declare processMatchmakingQueue.simps [simp del]

text \<open>\<^verbatim>\<open>handleDisconnect\<close>: one room of the \<^verbatim>\<open>rooms.forEach\<close>.\<close>

definition disconnect_from_room ::
  "int \<Rightarrow> string \<Rightarrow> string \<times> BattleRoom \<Rightarrow> (string \<times> BattleRoom) list \<times> sockets
     \<Rightarrow> (string \<times> BattleRoom) list \<times> sockets" where
  "disconnect_from_room now pid entry acc =
     (case entry of (rid, room0) \<Rightarrow>
      case acc of (rs, socks) \<Rightarrow>
        if \<exists>p \<in> set (players room0). Player.playerId p = pid
        then (let socks' = broadcast room0
                     \<lparr>Message.type = PLAYER_DISCONNECTED, data = PlayerIdData pid,
                      Message.timestamp = now, Message.playerId = ''server'',
                      messageId = None\<rparr> (Some pid) socks;
                  room' = removePlayer pid room0
              in if isEmpty room' then (rooms_delete rid rs, socks')
                 else (rooms_set rid room' rs, socks'))
        else (rs, socks))"

definition handleDisconnect :: "int \<Rightarrow> nat \<Rightarrow> BattleServer \<Rightarrow> BattleServer" where
  "handleDisconnect now w srv =
     (case WebSocket.playerId (sockets srv w) of
        None \<Rightarrow> srv
      | Some pid \<Rightarrow>
          if pid = [] then srv
          else (let queue' = remove_first (\<lambda>p. QueueEntry.playerId p = pid) (matchmakingQueue srv);
                    (rs, socks) = fold (disconnect_from_room now pid) (rooms srv)
                                    (rooms srv, sockets srv)
                in srv\<lparr>clients := (clients srv)(pid := None),
                       matchmakingQueue := queue',
                       rooms := rs, sockets := socks\<rparr>))"

section \<open>Notions used to state the properties of the resolver\<close>

text \<open>The positions, present in both grids, at which two grids hold different cells.\<close>

definition differing_cells :: "grid \<Rightarrow> grid \<Rightarrow> (nat \<times> nat) set" where
  "differing_cells g1 g2 =
     {(r, c). r < length g1 \<and> r < length g2 \<and> c < length (g1 ! r) \<and> c < length (g2 ! r)
              \<and> g1 ! r ! c \<noteq> g2 ! r ! c}"

text \<open>The cell that \<^verbatim>\<open>grid[r][c]\<close> reads in an existing row \<open>r\<close>, and the compensation
  entries of the 8 by 8 window in row-major order: one entry per position whose two
  reads differ.\<close>

definition window_cell :: "grid \<Rightarrow> nat \<Rightarrow> nat \<Rightarrow> CandyType option" where
  "window_cell g r c = (if c < length (g ! r) then Some (g ! r ! c) else None)"

definition window_moves :: "grid \<Rightarrow> grid \<Rightarrow> CompensationMove list" where
  "window_moves g1 g2 =
     concat (map (\<lambda>r. concat (map (\<lambda>c.
        if window_cell g1 r c \<noteq> window_cell g2 r c
        then [\<lparr>position = \<lparr>row = r, col = c\<rparr>, CompensationMove.oldValue = window_cell g1 r c,
               newValue = window_cell g2 r c, reason = ''Grid synchronization''\<rparr>]
        else []) [0 ..< 8])) [0 ..< 8])"

definition square8 :: "grid \<Rightarrow> bool" where
  "square8 g = (length g = 8 \<and> list_all (\<lambda>r. length r = 8) g)"

definition prefer_non_empty :: "CandyType \<Rightarrow> CandyType \<Rightarrow> CandyType" where
  "prefer_non_empty a b = (if a \<noteq> EMPTY then a else b)"

text \<open>\<open>m\<close> is the cell-wise merge of \<open>g1\<close> and \<open>g2\<close>: every cell is the cell of \<open>g1\<close>
  unless that is empty or missing, and then the cell of \<open>g2\<close>.\<close>

definition merged_grid_of :: "grid \<Rightarrow> grid \<Rightarrow> grid \<Rightarrow> bool" where
  "merged_grid_of m g1 g2 =
     (length m = max (length g1) (length g2) \<and>
      (\<forall>r < length m. length (m ! r) = 8 \<and>
         (\<forall>c < 8. m ! r ! c = prefer_non_empty (cell_or_empty g1 r c) (cell_or_empty g2 r c))))"

subsection \<open>Concrete inputs\<close>

definition grid_of :: "nat \<Rightarrow> nat \<Rightarrow> CandyType \<Rightarrow> grid" where
  "grid_of rows cols c = replicate rows (replicate cols c)"

text \<open>An 8 by 8 grid that differs from the all-red grid in the first seven cells of
  its first row.\<close>

definition grid7 :: grid where
  "grid7 = (replicate 7 BLUE @ [RED]) # replicate 7 (replicate 8 RED)"

definition resolver0 :: "ResolutionStrategy \<Rightarrow> bool \<Rightarrow> ConflictResolver" where
  "resolver0 s a =
     \<lparr>ConflictResolver.strategy = s, isServerAuthority = a, conflicts = [],
      ConflictResolver.stats = \<lparr>totalConflicts = 0, resolvedConflicts = 0, failedResolutions = 0,
               byType = (\<lambda>_. 0), byStrategy = (\<lambda>_. 0)\<rparr>\<rparr>"

definition snapshot0 :: "grid \<Rightarrow> grid \<Rightarrow> StateSnapshot" where
  "snapshot0 pg og =
     \<lparr>StateSnapshot.timestamp = 1000, StateSnapshot.version = 1, playerGrid = pg, opponentGrid = og,
      playerScore = 0, opponentScore = 0, playerMoves = 0, opponentMoves = 0,
      eventProgress = 0, activeEvents = [], StateSnapshot.currentTurn = ''PLAYER''\<rparr>"

definition conflict0 :: "ConflictType \<Rightarrow> StateSnapshot \<Rightarrow> StateSnapshot \<Rightarrow> Conflict" where
  "conflict0 ty l r =
     \<lparr>Conflict.type = ty, Conflict.timestamp = 0, localVersion = StateSnapshot.version l,
      remoteVersion = StateSnapshot.version r, localState = l, remoteState = r\<rparr>"

section \<open>Notions used to state the properties of the synchroniser\<close>


text \<open>The player grid (\<open>True\<close>) or the opponent grid (\<open>False\<close>) of a snapshot object.\<close>

definition grid_named :: "bool \<Rightarrow> UntypedSnapshot \<Rightarrow> change_value option list list" where
  "grid_named b s = (if b then UntypedSnapshot.playerGrid s else UntypedSnapshot.opponentGrid s)"


text \<open>What a change assigns to: an element of a row of one of the two grids, or one of
  the seven other fields. A change with no target (a path that its type does not know,
  a column number that is not an array index) stores nothing.\<close>

datatype target =
  TCell bool nat nat | TPlayerScore | TOpponentScore | TPlayerMoves | TOpponentMoves
| TEventProgress | TActiveEvents | TCurrentTurn

definition target_of :: "StateChange \<Rightarrow> target option" where
  "target_of change =
     (case StateChange.type change of
        GRID_UPDATE \<Rightarrow>
          (case match_grid_path (path change) of
             None \<Rightarrow> None
           | Some (gridName, r, c) \<Rightarrow>
               if is_array_index c
               then (if gridName = ''playerGrid'' then Some (TCell True r c)
                     else if gridName = ''opponentGrid'' then Some (TCell False r c)
                     else None)
               else None)
      | SCORE_UPDATE \<Rightarrow>
          if path change = ''playerScore'' then Some TPlayerScore
          else if path change = ''opponentScore'' then Some TOpponentScore else None
      | MOVES_UPDATE \<Rightarrow>
          if path change = ''playerMoves'' then Some TPlayerMoves
          else if path change = ''opponentMoves'' then Some TOpponentMoves else None
      | EVENT_UPDATE \<Rightarrow>
          if path change = ''eventProgress'' then Some TEventProgress
          else if path change = ''activeEvents'' then Some TActiveEvents else None
      | TURN_UPDATE \<Rightarrow> Some TCurrentTurn)"



text \<open>The assignment to a target in a snapshot that has the target's row.\<close>

fun assign :: "target \<Rightarrow> change_value \<Rightarrow> UntypedSnapshot \<Rightarrow> UntypedSnapshot" where
  "assign (TCell True r c) v s =
     s\<lparr>UntypedSnapshot.playerGrid :=
         (UntypedSnapshot.playerGrid s)[r := set_index (UntypedSnapshot.playerGrid s ! r) c v]\<rparr>"
| "assign (TCell False r c) v s =
     s\<lparr>UntypedSnapshot.opponentGrid :=
         (UntypedSnapshot.opponentGrid s)[r := set_index (UntypedSnapshot.opponentGrid s ! r) c v]\<rparr>"
| "assign TPlayerScore v s = s\<lparr>UntypedSnapshot.playerScore := v\<rparr>"
| "assign TOpponentScore v s = s\<lparr>UntypedSnapshot.opponentScore := v\<rparr>"
| "assign TPlayerMoves v s = s\<lparr>UntypedSnapshot.playerMoves := v\<rparr>"
| "assign TOpponentMoves v s = s\<lparr>UntypedSnapshot.opponentMoves := v\<rparr>"
| "assign TEventProgress v s = s\<lparr>UntypedSnapshot.eventProgress := v\<rparr>"
| "assign TActiveEvents v s = s\<lparr>UntypedSnapshot.activeEvents := v\<rparr>"
| "assign TCurrentTurn v s = s\<lparr>UntypedSnapshot.currentTurn := v\<rparr>"

text \<open>The assignment of one change, the assignments of a list of changes one after the
  other, and the snapshot on which \<open>applyDelta\<close> starts its loop: the clone with the
  version and the timestamp of the delta.\<close>

definition step :: "StateChange \<Rightarrow> UntypedSnapshot \<Rightarrow> UntypedSnapshot" where
  "step change u = (case target_of change of None \<Rightarrow> u | Some t \<Rightarrow> assign t (value change) u)"

definition run :: "StateChange list \<Rightarrow> UntypedSnapshot \<Rightarrow> UntypedSnapshot" where
  "run chs s = fold step chs s"


text \<open>What a list of changes leaves at a target that held \<open>x\<close>: the value of the last
  change that assigns to it. And the length it leaves to row \<open>r\<close> of grid \<open>b\<close> that had
  length \<open>n\<close>.\<close>

definition last_write ::
  "target \<Rightarrow> StateChange list \<Rightarrow> change_value option \<Rightarrow> change_value option" where
  "last_write t chs x =
     fold (\<lambda>change w. if target_of change = Some t then Some (value change) else w) chs x"

definition reach :: "bool \<Rightarrow> nat \<Rightarrow> StateChange list \<Rightarrow> nat \<Rightarrow> nat" where
  "reach b r chs n =
     fold (\<lambda>change m. case target_of change of
                         Some (TCell b' r' c) \<Rightarrow> if b' = b \<and> r' = r then max m (Suc c) else m
                       | _ \<Rightarrow> m) chs n"







text \<open>The number of change records of what \<open>generateDelta\<close> returns. The grid walk of
  \<open>generateDelta\<close> reads, for every cell of the previous grid, the same position of the
  current grid: \<open>rows_present\<close> says that every row of the previous grid that has a cell
  is a row of the current grid, and \<open>fixed_shape\<close> that the grids of the two snapshots
  have the same row lengths.\<close>

definition delta_size :: "StateDelta option \<Rightarrow> nat" where
  "delta_size d = (case d of None \<Rightarrow> 0 | Some delta \<Rightarrow> length (changes delta))"

definition rows_present_in :: "grid \<Rightarrow> grid \<Rightarrow> bool" where
  "rows_present_in oldGrid newGrid =
     list_all (\<lambda>r. oldGrid ! r = [] \<or> r < length newGrid) [0 ..< length oldGrid]"

definition rows_present :: "StateSynchronizer \<Rightarrow> bool" where
  "rows_present st =
     (case (currentSnapshot st, previousSnapshot st) of
        (Some current, Some previous) \<Rightarrow>
          rows_present_in (playerGrid previous) (playerGrid current) \<and>
          rows_present_in (opponentGrid previous) (opponentGrid current)
      | _ \<Rightarrow> True)"

definition fixed_shape :: "StateSynchronizer \<Rightarrow> bool" where
  "fixed_shape st =
     (case (currentSnapshot st, previousSnapshot st) of
        (Some current, Some previous) \<Rightarrow>
          map length (playerGrid previous) = map length (playerGrid current) \<and>
          map length (opponentGrid previous) = map length (opponentGrid current)
      | _ \<Rightarrow> True)"

subsection \<open>Concrete inputs\<close>




text \<open>A synchroniser after two snapshots with the player grids \<open>g1\<close> and \<open>g2\<close>, and
  with \<open>n\<close> syncs counted.\<close>

definition two_snapshots :: "SyncMode \<Rightarrow> nat \<Rightarrow> grid \<Rightarrow> grid \<Rightarrow> StateSynchronizer" where
  "two_snapshots mode n g1 g2 =
     (let st1 = snd (createSnapshot 10 g1 [] 0 0 0 0 0 [] ''A'' (new_StateSynchronizer mode));
          st2 = snd (createSnapshot 20 g2 [] 0 0 0 0 0 [] ''A'' st1)
      in st2\<lparr>StateSynchronizer.stats := (StateSynchronizer.stats st2)\<lparr>totalSyncs := n\<rparr>\<rparr>)"

section \<open>Notions used to state the properties of the store and of the server\<close>

text \<open>How many copies of a broadcast a socket receives: one per player entry of the
  room that sits on this socket under an id other than the excluded one, and none when
  the socket is not open.\<close>

definition receivers :: "BattleRoom \<Rightarrow> string option \<Rightarrow> sockets \<Rightarrow> nat \<Rightarrow> nat" where
  "receivers room excludePlayerId socks v =
     (if readyState (socks v) = OPEN
      then length (filter (\<lambda>p. Player.ws p = v \<and> Some (Player.playerId p) \<noteq> excludePlayerId)
                     (players room))
      else 0)"

text \<open>The \<^verbatim>\<open>ws\<close> library sets \<^verbatim>\<open>readyState\<close> to \<^verbatim>\<open>CLOSED\<close> before it emits
  \<^verbatim>\<open>close\<close>.\<close>

definition socket_closed :: "nat \<Rightarrow> BattleServer \<Rightarrow> BattleServer" where
  "socket_closed w srv = srv\<lparr>sockets := (sockets srv)(w := (sockets srv w)\<lparr>readyState := CLOSED\<rparr>)\<rparr>"

text \<open>The room that one round of the matchmaking loop creates, and the message it
  sends to each of the two players.\<close>

definition matched_room :: "int \<Rightarrow> string \<Rightarrow> QueueEntry \<Rightarrow> QueueEntry \<Rightarrow> BattleRoom" where
  "matched_room now rid player1 player2 =
     \<lparr>room_id = rid,
      players = [\<lparr>Player.playerId = QueueEntry.playerId player1, Player.ws = QueueEntry.ws player1\<rparr>,
                 \<lparr>Player.playerId = QueueEntry.playerId player2, Player.ws = QueueEntry.ws player2\<rparr>],
      BattleRoom.state =
        \<lparr>gameStarted = True, RoomState.currentTurn = Some (QueueEntry.playerId player1),
         playerStates = (Map.empty(QueueEntry.playerId player1 \<mapsto>
                            \<lparr>score = 0, moves = 0, connected = True\<rparr>))
                        (QueueEntry.playerId player2 \<mapsto> \<lparr>score = 0, moves = 0, connected = True\<rparr>),
         RoomState.moveHistory = []\<rparr>,
      createdAt = now\<rparr>"

definition match_message :: "int \<Rightarrow> string \<Rightarrow> string \<Rightarrow> Message" where
  "match_message now rid opponent =
     \<lparr>Message.type = GAME_START, data = MatchFoundData rid opponent,
      Message.timestamp = now, Message.playerId = ''server'', messageId = None\<rparr>"

text \<open>The messages a call added to a socket.\<close>

definition new_messages :: "BattleServer \<Rightarrow> BattleServer \<Rightarrow> nat \<Rightarrow> Message list" where
  "new_messages srv srv' v = drop (length (sent (sockets srv v))) (sent (sockets srv' v))"

text \<open>What one call of \<open>processMatchmakingQueue\<close> on \<open>srv\<close> has done when it returns
  \<open>srv'\<close>, for the queue \<open>q\<close> and the \<open>k\<close> pairs it holds: the first \<open>2k\<close> tickets are gone;
  sockets keep their state and only gain messages; rooms under other ids are untouched;
  and for the \<open>i\<close>-th pair each of the two sockets, if open, was sent the match message
  naming the other player, and the room under the \<open>i\<close>-th generated id holds the two
  players, unless a later round generated the same id again.\<close>

definition drained :: "int \<Rightarrow> (nat \<Rightarrow> string) \<Rightarrow> BattleServer \<Rightarrow> BattleServer \<Rightarrow> bool" where
  "drained now newId srv srv' =
     (let q = matchmakingQueue srv; k = length q div 2 in
      matchmakingQueue srv' = drop (2 * k) q
      \<and> (\<forall>v. readyState (sockets srv' v) = readyState (sockets srv v))
      \<and> (\<forall>v. \<exists>ys. sent (sockets srv' v) = sent (sockets srv v) @ ys)
      \<and> (\<forall>rid. (\<forall>j < k. newId j \<noteq> rid) \<longrightarrow> rooms_get (rooms srv') rid = rooms_get (rooms srv) rid)
      \<and> (\<forall>i < k.
            (readyState (sockets srv (QueueEntry.ws (q ! (2 * i)))) = OPEN \<longrightarrow>
               match_message now (newId i) (QueueEntry.playerId (q ! (2 * i + 1)))
                 \<in> set (new_messages srv srv' (QueueEntry.ws (q ! (2 * i)))))
          \<and> (readyState (sockets srv (QueueEntry.ws (q ! (2 * i + 1)))) = OPEN \<longrightarrow>
               match_message now (newId i) (QueueEntry.playerId (q ! (2 * i)))
                 \<in> set (new_messages srv srv' (QueueEntry.ws (q ! (2 * i + 1)))))
          \<and> ((\<forall>j < k. i < j \<longrightarrow> newId j \<noteq> newId i) \<longrightarrow>
               rooms_get (rooms srv') (newId i) =
                 Some (matched_room now (newId i) (q ! (2 * i)) (q ! (2 * i + 1))))))"

subsection \<open>Concrete inputs\<close>

definition blob :: "string \<Rightarrow> int \<Rightarrow> (unit, unit) GameStateSnapshot" where
  "blob rid t =
     \<lparr>GameStateSnapshot.timestamp = t, roomId = rid, GameStateSnapshot.playerId = ''A'',
      opponentId = ''B'', GameStateSnapshot.state = (), GameStateSnapshot.moveHistory = [],
      lastSyncedMove = 0\<rparr>"

definition manager0 :: "(unit, unit) ReconnectionManager" where
  "manager0 = \<lparr>stateSnapshots = [], lastSnapshotTime = 0, disconnectTime = 0\<rparr>"

definition storage0 :: "(unit, unit) LocalStorage" where
  "storage0 = \<lparr>items = Map.empty, full = False\<rparr>"

text \<open>A server with no room, and every socket open and silent.\<close>

definition server0 :: BattleServer where
  "server0 =
     \<lparr>rooms = [], clients = Map.empty, matchmakingQueue = [],
      sockets = (\<lambda>_. \<lparr>readyState = OPEN, WebSocket.playerId = None, sent = []\<rparr>)\<rparr>"

text \<open>Room \<open>R\<close> after A (socket 1) created it.\<close>

definition room_A :: BattleRoom where
  "room_A =
     \<lparr>room_id = ''R'',
      players = [\<lparr>Player.playerId = ''A'', Player.ws = 1\<rparr>],
      BattleRoom.state =
        \<lparr>gameStarted = False, RoomState.currentTurn = None,
         playerStates = Map.empty(''A'' \<mapsto> \<lparr>score = 0, moves = 0, connected = True\<rparr>),
         RoomState.moveHistory = []\<rparr>,
      createdAt = 1\<rparr>"

definition server_A :: BattleServer where
  "server_A = server0\<lparr>rooms := [(''R'', room_A)]\<rparr>"

text \<open>Room \<open>R\<close> after A (socket 1) created it and B (socket 2) joined: the game has
  started and it is A's turn.\<close>

definition room_AB :: BattleRoom where
  "room_AB =
     \<lparr>room_id = ''R'',
      players = [\<lparr>Player.playerId = ''A'', Player.ws = 1\<rparr>,
                 \<lparr>Player.playerId = ''B'', Player.ws = 2\<rparr>],
      BattleRoom.state =
        \<lparr>gameStarted = True, RoomState.currentTurn = Some ''A'',
         playerStates = (Map.empty(''A'' \<mapsto> \<lparr>score = 0, moves = 0, connected = True\<rparr>))
                        (''B'' \<mapsto> \<lparr>score = 0, moves = 0, connected = True\<rparr>),
         RoomState.moveHistory = []\<rparr>,
      createdAt = 1\<rparr>"

definition server_AB :: BattleServer where
  "server_AB = server0\<lparr>rooms := [(''R'', room_AB)]\<rparr>"

definition move0 :: MoveData where
  "move0 = \<lparr>pos1 = \<lparr>row = 0, col = 0\<rparr>, pos2 = \<lparr>row = 0, col = 1\<rparr>, moveNumber = 1\<rparr>"

definition move_message :: "int \<Rightarrow> string \<Rightarrow> MoveData \<Rightarrow> Message" where
  "move_message now pid mv =
     \<lparr>Message.type = MOVE, data = MoveMessageData mv, Message.timestamp = now,
      Message.playerId = pid, messageId = None\<rparr>"

text \<open>P connects on socket 1 and asks for a match twice; the socket closes. Then Q
  connects on socket 2 and asks for a match.\<close>

definition server_P_left :: BattleServer where
  "server_P_left =
     handleDisconnect 4 1 (socket_closed 1
       (handleMatchmakingRequest 3 1 ''P''
         (handleMatchmakingRequest 2 1 ''P'' (handleConnect 1 1 ''P'' server0))))"

definition server_P_left_Q_waits :: BattleServer where
  "server_P_left_Q_waits =
     handleMatchmakingRequest 6 2 ''Q'' (handleConnect 5 2 ''Q'' server_P_left)"

section \<open>Properties of the conflict resolver\<close>

subsection \<open>Counting differing cells\<close>

lemma fold_count: "fold (\<lambda>c d. if P c then d + 1 else d) xs (d::nat) = d + length (filter P xs)"
  by (induction xs arbitrary: d) auto

lemma fold_add: "fold (\<lambda>r d. d + h r) xs (d::nat) = d + sum_list (map h xs)"
  by (induction xs arbitrary: d) auto

lemma fold_count_fun:
  "fold (\<lambda>c d. if P c then d + 1 else d) xs = (\<lambda>d::nat. d + length (filter P xs))"
  by (rule ext) (rule fold_count)

lemma fold_add_fun: "fold (\<lambda>r d. d + h r) xs = (\<lambda>d::nat. d + sum_list (map h xs))"
  by (rule ext) (rule fold_add)

lemma compareGrids_sum:
  "compareGrids g1 g2 =
     (\<Sum>r\<leftarrow>[0 ..< min (length g1) (length g2)].
        length (filter (\<lambda>c. g1 ! r ! c \<noteq> g2 ! r ! c)
                  [0 ..< min (length (g1 ! r)) (length (g2 ! r))]))"
  unfolding compareGrids_def by (simp add: fold_count_fun fold_add_fun)

lemma card_filter_upt: "length (filter P [0..<n]) = card {c. c < n \<and> P c}"
proof -
  have "distinct (filter P [0..<n])" by simp
  then have "length (filter P [0..<n]) = card (set (filter P [0..<n]))"
    by (simp only: distinct_card)
  moreover have "set (filter P [0..<n]) = {c. c < n \<and> P c}" by auto
  ultimately show ?thesis by simp
qed

lemma differing_cells_Sigma:
  "differing_cells g1 g2 =
     (SIGMA r:{0 ..< min (length g1) (length g2)}.
        {c. c < min (length (g1 ! r)) (length (g2 ! r)) \<and> g1 ! r ! c \<noteq> g2 ! r ! c})"
  unfolding differing_cells_def by auto

lemma compareGrids_card: "compareGrids g1 g2 = card (differing_cells g1 g2)"
proof -
  have "card (differing_cells g1 g2) =
        (\<Sum>r\<in>{0 ..< min (length g1) (length g2)}.
           card {c. c < min (length (g1 ! r)) (length (g2 ! r)) \<and> g1 ! r ! c \<noteq> g2 ! r ! c})"
    unfolding differing_cells_Sigma by (subst card_SigmaI) auto
  also have "\<dots> = compareGrids g1 g2"
    unfolding compareGrids_sum by (simp add: card_filter_upt interv_sum_list_conv_sum_set_nat)
  finally show ?thesis by simp
qed

subsection \<open>Conflict detection\<close>

text \<open>
  Claim C4, as the code has it. \<open>detectConflict\<close> runs its checks in this order and
  reports the first that fires: \<open>VERSION_MISMATCH\<close> when the versions are more than 1
  apart; else \<open>GRID_INCONSISTENCY\<close> when more than 5 positions (of those both grids
  have) differ between the local player grid and the remote opponent grid; else
  \<open>SCORE_MISMATCH\<close> when the score sums are more than 100 apart; else
  \<open>STATE_DIVERGENCE\<close> when the timestamps are more than 10000 ms apart; else no
  conflict. The pair local opponent grid / remote player grid is not compared.
\<close>

theorem detectConflict_first_check:
  "map_option Conflict.type (fst (detectConflict now cr localSt remoteSt)) =
     (if \<bar>StateSnapshot.version localSt - StateSnapshot.version remoteSt\<bar> > 1 then Some VERSION_MISMATCH
      else if card (differing_cells (playerGrid localSt) (opponentGrid remoteSt)) > 5
      then Some GRID_INCONSISTENCY
      else if \<bar>(playerScore localSt + opponentScore localSt) -
                (playerScore remoteSt + opponentScore remoteSt)\<bar> > 100
      then Some SCORE_MISMATCH
      else if \<bar>StateSnapshot.timestamp localSt - StateSnapshot.timestamp remoteSt\<bar> > 10000
      then Some STATE_DIVERGENCE
      else None)"
  by (simp add: detectConflict_def createConflict_def Let_def compareGrids_card)

text \<open>
  Claim C4 as stated fails: the local opponent grid and the remote player grid differ
  in 6 cells, the versions, score sums and timestamps agree, and no conflict is
  reported.
\<close>

theorem detectConflict_symmetric_pair_ignored:
  "compareGrids (opponentGrid (snapshot0 (grid_of 2 3 RED) (grid_of 2 3 RED)))
                (playerGrid (snapshot0 (grid_of 2 3 BLUE) (grid_of 2 3 RED))) = 6
   \<and> fst (detectConflict 0 (resolver0 SERVER_AUTHORITATIVE False)
            (snapshot0 (grid_of 2 3 RED) (grid_of 2 3 RED))
            (snapshot0 (grid_of 2 3 BLUE) (grid_of 2 3 RED))) = None"
  by (simp add: detectConflict_def compareGrids_def snapshot0_def grid_of_def resolver0_def
        upt_rec numeral_eq_Suc)

subsection \<open>Compensation moves\<close>

lemma for_each_pure:
  "(\<And>x s. x \<in> set xs \<Longrightarrow> body x s = Inr (f x s)) \<Longrightarrow> for_each xs body s = Inr (fold f xs s)"
  by (induction xs arbitrary: s) auto

lemma fold_append_concat: "fold (\<lambda>x m. m @ f x) xs m = m @ concat (map f xs)"
  by (induction xs arbitrary: m) auto

lemma compensation_cell_window:
  assumes "r < length (playerGrid cur)" and "r < length (playerGrid tgt)"
  shows "compensation_cell cur tgt r c mvs =
         Inr (mvs @ (if window_cell (playerGrid cur) r c \<noteq> window_cell (playerGrid tgt) r c
                       then [\<lparr>position = \<lparr>row = r, col = c\<rparr>,
                              CompensationMove.oldValue = window_cell (playerGrid cur) r c,
                              newValue = window_cell (playerGrid tgt) r c,
                              reason = ''Grid synchronization''\<rparr>]
                       else []))"
  using assms by (simp add: compensation_cell_def cell_at_def window_cell_def)

lemma generateCompensationMoves_window:
  assumes "8 \<le> length (playerGrid cur)" and "8 \<le> length (playerGrid tgt)"
  shows "generateCompensationMoves cur tgt = Inr (window_moves (playerGrid cur) (playerGrid tgt))"
proof -
  let ?cellf = "\<lambda>r c. (if window_cell (playerGrid cur) r c \<noteq> window_cell (playerGrid tgt) r c
                       then [\<lparr>position = \<lparr>row = r, col = c\<rparr>,
                              CompensationMove.oldValue = window_cell (playerGrid cur) r c,
                              newValue = window_cell (playerGrid tgt) r c,
                              reason = ''Grid synchronization''\<rparr>]
                       else [])"
  have inner: "for_each [0 ..< 8] (\<lambda>c. compensation_cell cur tgt r c) mvs =
               Inr (mvs @ concat (map (?cellf r) [0 ..< 8]))" if "r \<in> set [0 ..< 8]" for r mvs
  proof -
    from that assms have "r < length (playerGrid cur)" "r < length (playerGrid tgt)" by auto
    then have "for_each [0 ..< 8] (\<lambda>c. compensation_cell cur tgt r c) mvs =
          Inr (fold (\<lambda>c m. m @ ?cellf r c) [0 ..< 8] mvs)"
      by (intro for_each_pure) (simp add: compensation_cell_window)
    then show ?thesis by (simp only: fold_append_concat)
  qed
  have "generateCompensationMoves cur tgt =
        Inr (fold (\<lambda>r m. m @ concat (map (?cellf r) [0 ..< 8])) [0 ..< 8] [])"
    unfolding generateCompensationMoves_def by (intro for_each_pure) (rule inner)
  then show ?thesis by (simp only: fold_append_concat window_moves_def append_Nil)
qed

lemma sum_length_if:
  "(\<Sum>c\<leftarrow>xs. length (if P c then [m c] else [])) = length (filter P xs)"
  by (induction xs) auto

lemma window_moves_count:
  assumes "square8 g1" and "square8 g2"
  shows "length (window_moves g1 g2) = compareGrids g1 g2"
proof -
  have len: "length g1 = 8" "length g2 = 8" using assms by (simp_all add: square8_def)
  have rows: "length (g1 ! r) = 8 \<and> length (g2 ! r) = 8" if "r < 8" for r
    using assms that by (simp add: square8_def list_all_length)
  have cell: "(window_cell g1 r c \<noteq> window_cell g2 r c) = (g1 ! r ! c \<noteq> g2 ! r ! c)"
    if "r < 8" "c < 8" for r c
    using rows[OF that(1)] that(2) by (simp add: window_cell_def)
  have "length (window_moves g1 g2) =
        (\<Sum>r\<leftarrow>[0 ..< 8]. length (filter (\<lambda>c. window_cell g1 r c \<noteq> window_cell g2 r c) [0 ..< 8]))"
    unfolding window_moves_def by (simp add: length_concat o_def sum_length_if)
  also have "\<dots> = (\<Sum>r\<leftarrow>[0 ..< 8]. length (filter (\<lambda>c. g1 ! r ! c \<noteq> g2 ! r ! c) [0 ..< 8]))"
    by (intro arg_cong[where f = sum_list] map_cong refl arg_cong[where f = length] filter_cong)
       (auto simp: cell)
  also have "\<dots> = compareGrids g1 g2"
    unfolding compareGrids_sum len
    by (intro arg_cong[where f = sum_list] map_cong) (auto simp: rows)
  finally show ?thesis .
qed

lemma compareGrids_grid7: "compareGrids (grid_of 8 8 RED) grid7 = 7"
  by (simp add: compareGrids_def grid_of_def grid7_def upt_rec numeral_eq_Suc)

lemma square8_examples: "square8 (grid_of 8 8 RED)" "square8 grid7"
  by (simp_all add: square8_def grid_of_def grid7_def numeral_eq_Suc)

subsection \<open>Server-authoritative resolution on a client\<close>

text \<open>
  The resolution on player grids of at least 8 rows. With the \<open>SERVER_AUTHORITATIVE\<close>
  policy on a client (\<open>isServerAuthority\<close> false), \<open>resolveConflict\<close> succeeds, the
  resolved state is the remote snapshot, \<open>rollbackRequired\<close> is set, and the
  compensation moves are the positions of the 8 by 8 window at which the local and the
  remote player grid differ; for 8 by 8 player grids their number is the number of
  differing cells (7 entries for 7 differing cells).
\<close>

theorem resolveServerAuthoritative_on_client:
  assumes "ConflictResolver.strategy cr = SERVER_AUTHORITATIVE"
    and "\<not> isServerAuthority cr"
    and "8 \<le> length (playerGrid localSt)" and "8 \<le> length (playerGrid remoteSt)"
  shows "fst (resolveConflict cr conflict localSt remoteSt) =
           \<lparr>success = True, strategy = SERVER_AUTHORITATIVE, resolvedState = remoteSt,
            rollbackRequired = True,
            compensationMoves = window_moves (playerGrid localSt) (playerGrid remoteSt)\<rparr>
         \<and> (square8 (playerGrid localSt) \<and> square8 (playerGrid remoteSt) \<longrightarrow>
              length (compensationMoves (fst (resolveConflict cr conflict localSt remoteSt))) =
              compareGrids (playerGrid localSt) (playerGrid remoteSt))"
  using assms
  by (simp add: resolveConflict_def resolveServerAuthoritative_def deepClone_def Let_def
        generateCompensationMoves_window window_moves_count)

theorem resolveServerAuthoritative_on_client_witness:
  "ConflictResolver.strategy (resolver0 SERVER_AUTHORITATIVE False) = SERVER_AUTHORITATIVE
   \<and> \<not> isServerAuthority (resolver0 SERVER_AUTHORITATIVE False)
   \<and> 8 \<le> length (playerGrid (snapshot0 (grid_of 8 8 RED) (grid_of 8 8 RED)))
   \<and> 8 \<le> length (playerGrid (snapshot0 grid7 (grid_of 8 8 RED)))
   \<and> square8 (playerGrid (snapshot0 (grid_of 8 8 RED) (grid_of 8 8 RED)))
   \<and> square8 (playerGrid (snapshot0 grid7 (grid_of 8 8 RED)))
   \<and> compareGrids (playerGrid (snapshot0 (grid_of 8 8 RED) (grid_of 8 8 RED)))
                   (playerGrid (snapshot0 grid7 (grid_of 8 8 RED))) = 7
   \<and> resolvedState (fst (resolveConflict (resolver0 SERVER_AUTHORITATIVE False)
         (conflict0 GRID_INCONSISTENCY (snapshot0 (grid_of 8 8 RED) (grid_of 8 8 RED))
            (snapshot0 grid7 (grid_of 8 8 RED)))
         (snapshot0 (grid_of 8 8 RED) (grid_of 8 8 RED))
         (snapshot0 grid7 (grid_of 8 8 RED)))) = snapshot0 grid7 (grid_of 8 8 RED)
   \<and> length (compensationMoves (fst (resolveConflict (resolver0 SERVER_AUTHORITATIVE False)
         (conflict0 GRID_INCONSISTENCY (snapshot0 (grid_of 8 8 RED) (grid_of 8 8 RED))
            (snapshot0 grid7 (grid_of 8 8 RED)))
         (snapshot0 (grid_of 8 8 RED) (grid_of 8 8 RED))
         (snapshot0 grid7 (grid_of 8 8 RED))))) = 7"
proof -
  let ?cr = "resolver0 SERVER_AUTHORITATIVE False"
  let ?l = "snapshot0 (grid_of 8 8 RED) (grid_of 8 8 RED)"
  let ?r = "snapshot0 grid7 (grid_of 8 8 RED)"
  have h1: "ConflictResolver.strategy ?cr = SERVER_AUTHORITATIVE" by (simp add: resolver0_def)
  have h2: "\<not> isServerAuthority ?cr" by (simp add: resolver0_def)
  have pl: "playerGrid ?l = grid_of 8 8 RED" and pr: "playerGrid ?r = grid7"
    by (simp_all add: snapshot0_def)
  have h3: "8 \<le> length (playerGrid ?l)" unfolding pl by (simp add: grid_of_def)
  have h4: "8 \<le> length (playerGrid ?r)" unfolding pr by (simp add: grid7_def)
  note th = resolveServerAuthoritative_on_client
              [OF h1 h2 h3 h4, of "conflict0 GRID_INCONSISTENCY ?l ?r"]
  have n: "length (compensationMoves (fst (resolveConflict ?cr
             (conflict0 GRID_INCONSISTENCY ?l ?r) ?l ?r))) =
           compareGrids (playerGrid ?l) (playerGrid ?r)"
    by (rule th[THEN conjunct2, rule_format]) (simp add: pl pr square8_examples)
  show ?thesis
    using th[THEN conjunct1] n h1 h2 h3 h4
    by (simp add: pl pr square8_examples compareGrids_grid7)
qed

text \<open>
  Claim C5 at a failing input. Two snapshots whose 3 by 3 player grids differ in 7
  cells, \<open>SERVER_AUTHORITATIVE\<close> policy on a client: the compensation pass walks a fixed
  8 by 8 window, its read of row 3 throws, \<open>resolveConflict\<close> catches the exception, and
  the result is a failure that keeps the local state and has no compensation entry,
  where the claim has success, the remote state and 7 entries.
\<close>

theorem resolveServerAuthoritative_small_grid_fails:
  "compareGrids (grid_of 3 3 RED) ([BLUE, BLUE, BLUE] # [BLUE, BLUE, BLUE] # [[BLUE, RED, RED]]) = 7
   \<and> fst (resolveConflict (resolver0 SERVER_AUTHORITATIVE False)
         (conflict0 GRID_INCONSISTENCY (snapshot0 (grid_of 3 3 RED) (grid_of 3 3 RED))
            (snapshot0 ([BLUE, BLUE, BLUE] # [BLUE, BLUE, BLUE] # [[BLUE, RED, RED]]) (grid_of 3 3 RED)))
         (snapshot0 (grid_of 3 3 RED) (grid_of 3 3 RED))
         (snapshot0 ([BLUE, BLUE, BLUE] # [BLUE, BLUE, BLUE] # [[BLUE, RED, RED]]) (grid_of 3 3 RED))) =
       \<lparr>success = False, strategy = SERVER_AUTHORITATIVE,
        resolvedState = snapshot0 (grid_of 3 3 RED) (grid_of 3 3 RED),
        rollbackRequired = True, compensationMoves = []\<rparr>"
  by (simp add: resolveConflict_def resolveServerAuthoritative_def generateCompensationMoves_def
        compensation_cell_def cell_at_def compareGrids_def snapshot0_def grid_of_def resolver0_def
        conflict0_def deepClone_def upt_rec numeral_eq_Suc)

subsection \<open>Merge resolution\<close>

lemma mergeGrids_merged: "merged_grid_of (mergeGrids g1 g2) g1 g2"
  by (simp add: merged_grid_of_def mergeGrids_def prefer_non_empty_def Let_def)

lemma mergeGrids_length: "length (mergeGrids g1 g2) = max (length g1) (length g2)"
  by (simp add: mergeGrids_def)

text \<open>
  The merge with a local player grid of at least 8 rows. With the \<open>MERGE\<close> policy the
  resolution succeeds without rollback and its snapshot has: the maximum of the two
  inputs in each of the two scores, the two move counts and the event progress; the
  timestamp, current turn and active events of the later snapshot (the local one on a
  tie); in each grid cell the non-empty value, the local grid's cell first (the local
  player grid against the remote opponent grid, the local opponent grid against the
  remote player grid); and the larger version plus one.
\<close>

theorem resolveMerge_result:
  assumes "ConflictResolver.strategy cr = MERGE" and "8 \<le> length (playerGrid localSt)"
  shows "let res = fst (resolveConflict cr conflict localSt remoteSt); m = resolvedState res in
           success res \<and> ResolutionResult.strategy res = MERGE \<and> \<not> rollbackRequired res
         \<and> playerScore m = max (playerScore localSt) (playerScore remoteSt)
         \<and> opponentScore m = max (opponentScore localSt) (opponentScore remoteSt)
         \<and> playerMoves m = max (playerMoves localSt) (playerMoves remoteSt)
         \<and> opponentMoves m = max (opponentMoves localSt) (opponentMoves remoteSt)
         \<and> eventProgress m = max (eventProgress localSt) (eventProgress remoteSt)
         \<and> StateSnapshot.timestamp m =
               max (StateSnapshot.timestamp localSt) (StateSnapshot.timestamp remoteSt)
         \<and> StateSnapshot.currentTurn m =
               (if StateSnapshot.timestamp remoteSt > StateSnapshot.timestamp localSt
                then StateSnapshot.currentTurn remoteSt else StateSnapshot.currentTurn localSt)
         \<and> activeEvents m =
               (if StateSnapshot.timestamp remoteSt > StateSnapshot.timestamp localSt
                then activeEvents remoteSt else activeEvents localSt)
         \<and> merged_grid_of (playerGrid m) (playerGrid localSt) (opponentGrid remoteSt)
         \<and> merged_grid_of (opponentGrid m) (opponentGrid localSt) (playerGrid remoteSt)
         \<and> StateSnapshot.version m = max (StateSnapshot.version localSt) (StateSnapshot.version remoteSt) + 1"
proof -
  let ?merged = "(if StateSnapshot.timestamp remoteSt > StateSnapshot.timestamp localSt
       then localSt\<lparr>
            playerScore := max (playerScore localSt) (playerScore remoteSt),
            opponentScore := max (opponentScore localSt) (opponentScore remoteSt),
            playerMoves := max (playerMoves localSt) (playerMoves remoteSt),
            opponentMoves := max (opponentMoves localSt) (opponentMoves remoteSt),
            eventProgress := max (eventProgress localSt) (eventProgress remoteSt),
            StateSnapshot.timestamp := StateSnapshot.timestamp remoteSt,
            StateSnapshot.currentTurn := StateSnapshot.currentTurn remoteSt,
            activeEvents := activeEvents remoteSt\<rparr>
       else localSt\<lparr>
            playerScore := max (playerScore localSt) (playerScore remoteSt),
            opponentScore := max (opponentScore localSt) (opponentScore remoteSt),
            playerMoves := max (playerMoves localSt) (playerMoves remoteSt),
            opponentMoves := max (opponentMoves localSt) (opponentMoves remoteSt),
            eventProgress := max (eventProgress localSt) (eventProgress remoteSt)\<rparr>)
        \<lparr>playerGrid := mergeGrids (playerGrid localSt) (opponentGrid remoteSt),
         opponentGrid := mergeGrids (opponentGrid localSt) (playerGrid remoteSt),
         StateSnapshot.version := max (StateSnapshot.version localSt) (StateSnapshot.version remoteSt) + 1\<rparr>"
  have len: "8 \<le> length (playerGrid ?merged)"
    using assms(2) by (simp add: mergeGrids_length)
  have gen: "generateCompensationMoves localSt ?merged =
             Inr (window_moves (playerGrid localSt) (playerGrid ?merged))"
    by (rule generateCompensationMoves_window[OF assms(2) len])
  have res: "resolveMerge cr conflict localSt remoteSt =
             Inr \<lparr>success = True, strategy = MERGE, resolvedState = ?merged,
                  rollbackRequired = False,
                  compensationMoves = window_moves (playerGrid localSt) (playerGrid ?merged)\<rparr>"
    unfolding resolveMerge_def deepClone_def Let_def gen by simp
  have "fst (resolveConflict cr conflict localSt remoteSt) =
        \<lparr>success = True, strategy = MERGE, resolvedState = ?merged,
         rollbackRequired = False,
         compensationMoves = window_moves (playerGrid localSt) (playerGrid ?merged)\<rparr>"
    using assms(1) by (simp add: resolveConflict_def res Let_def)
  then show ?thesis
    by (simp add: Let_def mergeGrids_merged)
qed

theorem resolveMerge_result_witness:
  "ConflictResolver.strategy (resolver0 MERGE False) = MERGE
   \<and> 8 \<le> length (playerGrid (snapshot0 (grid_of 8 8 EMPTY) (grid_of 8 8 RED)))
   \<and> rollbackRequired (fst (resolveConflict (resolver0 MERGE False)
         (conflict0 GRID_INCONSISTENCY (snapshot0 (grid_of 8 8 EMPTY) (grid_of 8 8 RED))
            ((snapshot0 (grid_of 8 8 RED) grid7)\<lparr>StateSnapshot.version := 5, playerScore := 40\<rparr>))
         (snapshot0 (grid_of 8 8 EMPTY) (grid_of 8 8 RED))
         ((snapshot0 (grid_of 8 8 RED) grid7)\<lparr>StateSnapshot.version := 5, playerScore := 40\<rparr>))) = False
   \<and> StateSnapshot.version (resolvedState (fst (resolveConflict (resolver0 MERGE False)
         (conflict0 GRID_INCONSISTENCY (snapshot0 (grid_of 8 8 EMPTY) (grid_of 8 8 RED))
            ((snapshot0 (grid_of 8 8 RED) grid7)\<lparr>StateSnapshot.version := 5, playerScore := 40\<rparr>))
         (snapshot0 (grid_of 8 8 EMPTY) (grid_of 8 8 RED))
         ((snapshot0 (grid_of 8 8 RED) grid7)\<lparr>StateSnapshot.version := 5, playerScore := 40\<rparr>)))) = 6
   \<and> playerScore (resolvedState (fst (resolveConflict (resolver0 MERGE False)
         (conflict0 GRID_INCONSISTENCY (snapshot0 (grid_of 8 8 EMPTY) (grid_of 8 8 RED))
            ((snapshot0 (grid_of 8 8 RED) grid7)\<lparr>StateSnapshot.version := 5, playerScore := 40\<rparr>))
         (snapshot0 (grid_of 8 8 EMPTY) (grid_of 8 8 RED))
         ((snapshot0 (grid_of 8 8 RED) grid7)\<lparr>StateSnapshot.version := 5, playerScore := 40\<rparr>)))) = 40"
proof -
  let ?cr = "resolver0 MERGE False"
  let ?l = "snapshot0 (grid_of 8 8 EMPTY) (grid_of 8 8 RED)"
  let ?r = "(snapshot0 (grid_of 8 8 RED) grid7)\<lparr>StateSnapshot.version := 5, playerScore := 40\<rparr>"
  have h1: "ConflictResolver.strategy ?cr = MERGE" by (simp add: resolver0_def)
  have h2: "8 \<le> length (playerGrid ?l)" by (simp add: snapshot0_def grid_of_def)
  have v: "StateSnapshot.version ?l = 1" "StateSnapshot.version ?r = 5" "playerScore ?l = 0" "playerScore ?r = 40"
    by (simp_all add: snapshot0_def)
  show ?thesis
    using resolveMerge_result[OF h1 h2, of "conflict0 GRID_INCONSISTENCY ?l ?r" ?r] h1 h2
    by (simp add: Let_def v)
qed

text \<open>
  Claim C6 at a failing input. Two snapshots with 3 by 3 grids, the remote one with a
  player score of 500 and version 2, \<open>MERGE\<close> policy: the merged snapshot is built, then
  the compensation pass walks a fixed 8 by 8 window, its read of row 3 throws,
  \<open>resolveConflict\<close> catches the exception, and the result is a failure that keeps the
  local snapshot (player score 0, version 1) and asks for a rollback, where the claim
  has the merged snapshot (player score 500, version 3) without rollback.
\<close>

theorem resolveMerge_small_grid_fails:
  "max (playerScore (snapshot0 (grid_of 3 3 RED) (grid_of 3 3 RED)))
       (playerScore ((snapshot0 (grid_of 3 3 RED) (grid_of 3 3 RED))
                       \<lparr>StateSnapshot.version := 2, playerScore := 500\<rparr>)) = 500
   \<and> fst (resolveConflict (resolver0 MERGE False)
         (conflict0 SCORE_MISMATCH (snapshot0 (grid_of 3 3 RED) (grid_of 3 3 RED))
            ((snapshot0 (grid_of 3 3 RED) (grid_of 3 3 RED))
               \<lparr>StateSnapshot.version := 2, playerScore := 500\<rparr>))
         (snapshot0 (grid_of 3 3 RED) (grid_of 3 3 RED))
         ((snapshot0 (grid_of 3 3 RED) (grid_of 3 3 RED))
            \<lparr>StateSnapshot.version := 2, playerScore := 500\<rparr>)) =
       \<lparr>success = False, strategy = MERGE,
        resolvedState = snapshot0 (grid_of 3 3 RED) (grid_of 3 3 RED),
        rollbackRequired = True, compensationMoves = []\<rparr>"
  by (simp add: resolveConflict_def resolveMerge_def generateCompensationMoves_def mergeGrids_def
        compensation_cell_def cell_at_def cell_or_empty_def snapshot0_def grid_of_def resolver0_def
        conflict0_def deepClone_def upt_rec numeral_eq_Suc Let_def)

subsection \<open>Latest-timestamp resolution\<close>

text \<open>
  Claim C10. With the \<open>LATEST_TIMESTAMP\<close> policy and equal timestamps in the local and
  the remote snapshot, \<open>resolveConflict\<close> chooses the local snapshot: the resolved state
  is the local snapshot, \<open>rollbackRequired\<close> is false and there is no compensation
  move.
\<close>

theorem resolveLatestTimestamp_tie_keeps_local:
  assumes "ConflictResolver.strategy cr = LATEST_TIMESTAMP"
    and "StateSnapshot.timestamp localSt = StateSnapshot.timestamp remoteSt"
  shows "fst (resolveConflict cr conflict localSt remoteSt) =
         \<lparr>success = True, strategy = LATEST_TIMESTAMP, resolvedState = localSt,
          rollbackRequired = False, compensationMoves = []\<rparr>"
  using assms by (simp add: resolveConflict_def resolveLatestTimestamp_def deepClone_def Let_def)

theorem resolveLatestTimestamp_tie_keeps_local_witness:
  "ConflictResolver.strategy (resolver0 LATEST_TIMESTAMP False) = LATEST_TIMESTAMP
   \<and> StateSnapshot.timestamp (snapshot0 [] []) = StateSnapshot.timestamp (snapshot0 [[RED]] [])
   \<and> fst (resolveConflict (resolver0 LATEST_TIMESTAMP False)
             (conflict0 GRID_INCONSISTENCY (snapshot0 [] []) (snapshot0 [[RED]] []))
             (snapshot0 [] []) (snapshot0 [[RED]] [])) =
         \<lparr>success = True, strategy = LATEST_TIMESTAMP, resolvedState = snapshot0 [] [],
          rollbackRequired = False, compensationMoves = []\<rparr>"
  using resolveLatestTimestamp_tie_keeps_local
      [of "resolver0 LATEST_TIMESTAMP False" "snapshot0 [] []" "snapshot0 [[RED]] []"
          "conflict0 GRID_INCONSISTENCY (snapshot0 [] []) (snapshot0 [[RED]] [])"]
  by (simp add: resolver0_def snapshot0_def)
section \<open>Properties of the state synchroniser\<close>

subsection \<open>One change\<close>





lemma assign_grid_len [simp]: "length (grid_named b (assign t v s)) = length (grid_named b s)"
  by (cases "(t, v, s)" rule: assign.cases) (auto simp: grid_named_def)

lemma step_grid_len [simp]: "length (grid_named b (step c s)) = length (grid_named b s)"
  by (simp add: step_def split: option.splits)

lemma assign_version [simp]:
  "UntypedSnapshot.version (assign t v s) = UntypedSnapshot.version s"
  "UntypedSnapshot.timestamp (assign t v s) = UntypedSnapshot.timestamp s"
  by (cases "(t, v, s)" rule: assign.cases; simp)+

lemma run_Nil [simp]: "run [] s = s"
  by (simp add: run_def)

lemma run_Cons [simp]: "run (c # cs) s = run cs (step c s)"
  by (simp add: run_def)

lemma run_grid_len [simp]: "length (grid_named b (run cs s)) = length (grid_named b s)"
  by (induction cs arbitrary: s) simp_all

lemma run_version [simp]:
  "UntypedSnapshot.version (run cs s) = UntypedSnapshot.version s"
  "UntypedSnapshot.timestamp (run cs s) = UntypedSnapshot.timestamp s"
  by (induction cs arbitrary: s; simp add: step_def split: option.splits)+









lemma last_write_Nil [simp]: "last_write t [] x = x"
  by (simp add: last_write_def)

lemma last_write_Cons [simp]:
  "last_write t (c # cs) x = last_write t cs (if target_of c = Some t then Some (value c) else x)"
  by (simp add: last_write_def)


lemma reach_Nil [simp]: "reach b r [] n = n"
  by (simp add: reach_def)

lemma reach_Cons [simp]:
  "reach b r (c # cs) n =
     reach b r cs (case target_of c of
                     Some (TCell b' r' k) \<Rightarrow> if b' = b \<and> r' = r then max n (Suc k) else n
                   | _ \<Rightarrow> n)"
  by (simp add: reach_def)
































subsection \<open>Applying a delta\<close>




subsection \<open>Full snapshot or delta\<close>

lemma for_each_returns:
  "(\<And>x s. x \<in> set xs \<Longrightarrow> (\<exists>s'. body x s = Inr s') = good x) \<Longrightarrow>
   (\<exists>s'. for_each xs body s = Inr s') = (\<forall>x \<in> set xs. good x)"
proof (induction xs arbitrary: s)
  case Nil
  then show ?case by simp
next
  case (Cons x xs)
  show ?case
  proof (cases "body x s")
    case (Inl e)
    with Cons.prems[of x s] show ?thesis by auto
  next
    case (Inr s1)
    with Cons.prems[of x s] have "good x" by auto
    moreover have "(\<exists>s'. for_each xs body s1 = Inr s') = (\<forall>x \<in> set xs. good x)"
      by (rule Cons.IH) (use Cons.prems in auto)
    ultimately show ?thesis using Inr by simp
  qed
qed

lemma compare_row_returns:
  "(\<exists>s'. for_each [0 ..< length (oldGrid ! r)] (compare_cell oldGrid newGrid p r) s = Inr s') =
   (oldGrid ! r = [] \<or> r < length newGrid)"
proof -
  have "(\<exists>s'. for_each [0 ..< length (oldGrid ! r)] (compare_cell oldGrid newGrid p r) s = Inr s') =
        (\<forall>c \<in> set [0 ..< length (oldGrid ! r)]. r < length newGrid)"
    by (rule for_each_returns) (simp add: compare_cell_def cell_at_def)
  then show ?thesis by auto
qed

lemma compareGrids_changes_returns:
  "(\<exists>chs'. compareGrids_changes oldGrid newGrid p chs = Inr chs') =
   rows_present_in oldGrid newGrid"
proof -
  have "(\<exists>chs'. compareGrids_changes oldGrid newGrid p chs = Inr chs') =
        (\<forall>r \<in> set [0 ..< length oldGrid]. oldGrid ! r = [] \<or> r < length newGrid)"
    unfolding compareGrids_changes_def
    by (rule for_each_returns) (rule compare_row_returns)
  then show ?thesis by (simp add: rows_present_in_def list_all_iff)
qed

lemma generateDelta_returns: "(\<exists>d. generateDelta now st = Inr d) = rows_present st"
proof (cases "currentSnapshot st")
  case None
  then show ?thesis by (simp add: generateDelta_def rows_present_def)
next
  case (Some cur)
  show ?thesis
  proof (cases "previousSnapshot st")
    case None
    with Some show ?thesis by (simp add: generateDelta_def rows_present_def)
  next
    case prev: (Some prev)
    show ?thesis
    proof (cases "compareGrids_changes (playerGrid prev) (playerGrid cur) ''playerGrid'' []")
      case (Inl e)
      with compareGrids_changes_returns[of "playerGrid prev" "playerGrid cur" "''playerGrid''" "[]"]
      have "\<not> rows_present_in (playerGrid prev) (playerGrid cur)" by simp
      with Some prev Inl show ?thesis by (simp add: generateDelta_def rows_present_def)
    next
      case (Inr chs1)
      with compareGrids_changes_returns[of "playerGrid prev" "playerGrid cur" "''playerGrid''" "[]"]
      have p: "rows_present_in (playerGrid prev) (playerGrid cur)" by auto
      show ?thesis
      proof (cases "compareGrids_changes (opponentGrid prev) (opponentGrid cur) ''opponentGrid'' chs1")
        case (Inl e)
        with compareGrids_changes_returns[of "opponentGrid prev" "opponentGrid cur" "''opponentGrid''" chs1]
        have "\<not> rows_present_in (opponentGrid prev) (opponentGrid cur)" by simp
        with Some prev Inr Inl show ?thesis by (simp add: generateDelta_def rows_present_def)
      next
        case chs2: (Inr chs2)
        with compareGrids_changes_returns[of "opponentGrid prev" "opponentGrid cur" "''opponentGrid''" chs1]
        have "rows_present_in (opponentGrid prev) (opponentGrid cur)" by auto
        with p Some prev Inr chs2 show ?thesis
          by (simp add: generateDelta_def rows_present_def Let_def)
      qed
    qed
  qed
qed

lemma same_lengths_rows_present: "map length g = map length h \<Longrightarrow> rows_present_in g h"
  by (auto simp: rows_present_in_def list_all_iff dest: map_eq_imp_length_eq)

lemma fixed_shape_rows_present: "fixed_shape st \<Longrightarrow> rows_present st"
  by (auto simp: fixed_shape_def rows_present_def same_lengths_rows_present split: option.splits)

lemma generateDelta_stats:
  "generateDelta now (st\<lparr>StateSynchronizer.stats := x\<rparr>) = generateDelta now st"
  by (simp add: generateDelta_def)

text \<open>
  Claim C3. \<open>shouldUseDeltaSync\<close> returns false in mode \<open>FULL\<close> and true in mode
  \<open>DELTA\<close>. In mode \<open>HYBRID\<close> it returns false when there is no previous snapshot or
  when \<open>totalSyncs mod 10 = 0\<close>, without generating a delta; otherwise, whenever delta
  generation returns, the answer is false exactly when the delta holds more than 50
  change records. Delta generation returns for every pair of snapshots whose grids have
  the same row lengths. \<open>prepareSyncData\<close> hands out the current snapshot on false and
  the generated delta on true.
\<close>

theorem shouldUseDeltaSync_modes:
  "(syncMode st = FULL \<longrightarrow> shouldUseDeltaSync now st = Inr False)
   \<and> (syncMode st = DELTA \<longrightarrow> shouldUseDeltaSync now st = Inr True)
   \<and> (syncMode st = HYBRID \<and>
        (previousSnapshot st = None \<or> totalSyncs (StateSynchronizer.stats st) mod 10 = 0) \<longrightarrow>
          shouldUseDeltaSync now st = Inr False)
   \<and> (\<forall>d. syncMode st = HYBRID \<and> generateDelta now st = Inr d \<longrightarrow>
          shouldUseDeltaSync now st =
            Inr (\<not> (previousSnapshot st = None
                    \<or> totalSyncs (StateSynchronizer.stats st) mod 10 = 0
                    \<or> delta_size d > 50)))
   \<and> (fixed_shape st \<longrightarrow> (\<exists>d. generateDelta now st = Inr d))
   \<and> (\<forall>current. currentSnapshot st = Some current \<longrightarrow>
        (shouldUseDeltaSync now st = Inr False \<longrightarrow>
           map_sum id fst (prepareSyncData now st) = Inr (Some (FullState current))) \<and>
        (shouldUseDeltaSync now st = Inr True \<longrightarrow>
           map_sum id fst (prepareSyncData now st) =
           map_sum id (map_option DeltaState) (generateDelta now st)))"
proof (intro conjI impI allI)
  fix d assume "syncMode st = HYBRID \<and> generateDelta now st = Inr d"
  then show "shouldUseDeltaSync now st =
        Inr (\<not> (previousSnapshot st = None
                \<or> totalSyncs (StateSynchronizer.stats st) mod 10 = 0
                \<or> delta_size d > 50))"
    by (cases d) (auto simp: shouldUseDeltaSync_def snapshotInterval_def maxDeltaSize_def
                    delta_size_def)
next
  assume "fixed_shape st"
  then show "\<exists>d. generateDelta now st = Inr d"
    by (simp add: generateDelta_returns fixed_shape_rows_present)
next
  fix current assume "currentSnapshot st = Some current" "shouldUseDeltaSync now st = Inr True"
  then show "map_sum id fst (prepareSyncData now st) =
           map_sum id (map_option DeltaState) (generateDelta now st)"
    by (cases "generateDelta now st") (simp_all add: prepareSyncData_def generateDelta_stats Let_def)
qed (auto simp: shouldUseDeltaSync_def snapshotInterval_def prepareSyncData_def)

theorem shouldUseDeltaSync_modes_witness:
  "syncMode (two_snapshots HYBRID 9 (grid_of 3 4 RED) (grid_of 3 4 BLUE)) = HYBRID
   \<and> fixed_shape (two_snapshots HYBRID 9 (grid_of 3 4 RED) (grid_of 3 4 BLUE))
   \<and> map_sum id delta_size
        (generateDelta 30 (two_snapshots HYBRID 9 (grid_of 3 4 RED) (grid_of 3 4 BLUE))) = Inr 12
   \<and> shouldUseDeltaSync 30 (two_snapshots HYBRID 9 (grid_of 3 4 RED) (grid_of 3 4 BLUE)) = Inr True
   \<and> shouldUseDeltaSync 30 (two_snapshots HYBRID 10 (grid_of 3 4 RED) (grid_of 3 4 BLUE)) = Inr False
   \<and> fixed_shape (two_snapshots HYBRID 11 (grid_of 6 10 RED) (grid_of 6 10 BLUE))
   \<and> map_sum id delta_size
        (generateDelta 30 (two_snapshots HYBRID 11 (grid_of 6 10 RED) (grid_of 6 10 BLUE))) = Inr 60
   \<and> shouldUseDeltaSync 30 (two_snapshots HYBRID 11 (grid_of 6 10 RED) (grid_of 6 10 BLUE)) = Inr False
   \<and> shouldUseDeltaSync 30 (two_snapshots FULL 9 (grid_of 3 4 RED) (grid_of 3 4 BLUE)) = Inr False
   \<and> shouldUseDeltaSync 30 (two_snapshots DELTA 10 (grid_of 3 4 RED) (grid_of 3 4 BLUE)) = Inr True"
proof -
  let ?st9 = "two_snapshots HYBRID 9 (grid_of 3 4 RED) (grid_of 3 4 BLUE)"
  let ?st10 = "two_snapshots HYBRID 10 (grid_of 3 4 RED) (grid_of 3 4 BLUE)"
  let ?st11 = "two_snapshots HYBRID 11 (grid_of 6 10 RED) (grid_of 6 10 BLUE)"
  let ?full = "two_snapshots FULL 9 (grid_of 3 4 RED) (grid_of 3 4 BLUE)"
  let ?delta = "two_snapshots DELTA 10 (grid_of 3 4 RED) (grid_of 3 4 BLUE)"
  have m9: "syncMode ?st9 = HYBRID" and k9: "fixed_shape ?st9"
    and p9: "previousSnapshot ?st9 \<noteq> None"
    and t9: "totalSyncs (StateSynchronizer.stats ?st9) = 9"
    by code_simp+
  have m10: "syncMode ?st10 = HYBRID"
    and t10: "totalSyncs (StateSynchronizer.stats ?st10) = 10"
    by code_simp+
  have m11: "syncMode ?st11 = HYBRID" and k11: "fixed_shape ?st11"
    and p11: "previousSnapshot ?st11 \<noteq> None"
    and t11: "totalSyncs (StateSynchronizer.stats ?st11) = 11"
    by code_simp+
  have mf: "syncMode ?full = FULL" and md: "syncMode ?delta = DELTA"
    by code_simp+
  note th9 = shouldUseDeltaSync_modes[of ?st9 30]
  note th11 = shouldUseDeltaSync_modes[of ?st11 30]
  from th9 k9 obtain d9 where d9: "generateDelta 30 ?st9 = Inr d9" by blast
  have s9: "map_sum id delta_size (generateDelta 30 ?st9) = Inr 12" by code_simp
  with d9 have n9: "delta_size d9 = 12" by simp
  from th11 k11 obtain d11 where d11: "generateDelta 30 ?st11 = Inr d11" by blast
  have s11: "map_sum id delta_size (generateDelta 30 ?st11) = Inr 60" by code_simp
  with d11 have n11: "delta_size d11 = 60" by simp
  have r9: "shouldUseDeltaSync 30 ?st9 = Inr True"
    using th9 m9 d9 p9 t9 n9 by auto
  have r10: "shouldUseDeltaSync 30 ?st10 = Inr False"
    using shouldUseDeltaSync_modes[of ?st10 30] m10 t10 by auto
  have r11: "shouldUseDeltaSync 30 ?st11 = Inr False"
    using th11 m11 d11 p11 t11 n11 by auto
  have rf: "shouldUseDeltaSync 30 ?full = Inr False"
    using shouldUseDeltaSync_modes[of ?full 30] mf by simp
  have rd: "shouldUseDeltaSync 30 ?delta = Inr True"
    using shouldUseDeltaSync_modes[of ?delta 30] md by simp
  from m9 k9 s9 r9 r10 k11 s11 r11 rf rd show ?thesis by simp
qed

section \<open>Properties of the snapshot store\<close>

lemma saveToLocalStorage_writable:
  assumes "\<not> full ls"
  shows "items (saveToLocalStorage snapshot ls) (''game_snapshot_'' @ roomId snapshot) =
           Some (SnapshotItem snapshot)"
    and "items (saveToLocalStorage snapshot ls) ''latest_snapshot_key'' =
           Some (KeyItem (''game_snapshot_'' @ roomId snapshot))"
    and "loadFromLocalStorage (saveToLocalStorage snapshot ls) = Some snapshot"
  using assms
  by (simp_all add: saveToLocalStorage_def setItem_def loadFromLocalStorage_def Let_def)

lemma saveToLocalStorage_full: "full ls \<Longrightarrow> saveToLocalStorage snapshot ls = ls"
  by (simp add: saveToLocalStorage_def setItem_def)


text \<open>
  Claim C7, as the code has it. A call of \<open>saveSnapshot\<close> made less than 5 seconds after
  the last saved one changes nothing: neither the ring nor the durable store. A call
  made 5 seconds or more after it appends the snapshot to the ring, keeps the 10 most
  recent entries, records the time, and writes the snapshot to the durable store as the
  latest copy (unless the store refuses the write).
\<close>

theorem saveSnapshot_throttles_whole_save:
  "(now - lastSnapshotTime mgr < 5000 \<longrightarrow> saveSnapshot now snapshot (mgr, ls) = (mgr, ls))
   \<and> (now - lastSnapshotTime mgr \<ge> 5000 \<and> length (stateSnapshots mgr) \<le> 10 \<longrightarrow>
        stateSnapshots (fst (saveSnapshot now snapshot (mgr, ls))) =
          drop (length (stateSnapshots mgr) + 1 - 10) (stateSnapshots mgr @ [snapshot])
      \<and> length (stateSnapshots (fst (saveSnapshot now snapshot (mgr, ls)))) \<le> 10
      \<and> lastSnapshotTime (fst (saveSnapshot now snapshot (mgr, ls))) = now
      \<and> (\<not> full ls \<longrightarrow>
            loadFromLocalStorage (snd (saveSnapshot now snapshot (mgr, ls))) = Some snapshot)
      \<and> (full ls \<longrightarrow> snd (saveSnapshot now snapshot (mgr, ls)) = ls))"
proof (intro conjI impI)
  assume "now - lastSnapshotTime mgr < 5000"
  then show "saveSnapshot now snapshot (mgr, ls) = (mgr, ls)"
    by (simp add: saveSnapshot_def snapshotInterval_ms_def)
next
  assume h: "now - lastSnapshotTime mgr \<ge> 5000 \<and> length (stateSnapshots mgr) \<le> 10"
  then have r: "saveSnapshot now snapshot (mgr, ls) =
      (mgr\<lparr>stateSnapshots :=
              (if length (stateSnapshots mgr) = 10 then tl (stateSnapshots mgr @ [snapshot])
               else stateSnapshots mgr @ [snapshot]),
            lastSnapshotTime := now\<rparr>,
       saveToLocalStorage snapshot ls)"
    by (auto simp: saveSnapshot_def snapshotInterval_ms_def maxSnapshots_def Let_def)
  show "stateSnapshots (fst (saveSnapshot now snapshot (mgr, ls))) =
          drop (length (stateSnapshots mgr) + 1 - 10) (stateSnapshots mgr @ [snapshot])"
    using h by (simp add: r drop_Suc del: drop_append)
  show "length (stateSnapshots (fst (saveSnapshot now snapshot (mgr, ls)))) \<le> 10"
    using h by (simp add: r)
  show "lastSnapshotTime (fst (saveSnapshot now snapshot (mgr, ls))) = now"
    by (simp add: r)
  show "loadFromLocalStorage (snd (saveSnapshot now snapshot (mgr, ls))) = Some snapshot"
    if "\<not> full ls"
    using that by (simp add: r saveToLocalStorage_writable)
  show "snd (saveSnapshot now snapshot (mgr, ls)) = ls" if "full ls"
    using that by (simp add: r saveToLocalStorage_full)
qed

theorem saveSnapshot_throttles_whole_save_witness:
  "10000 - lastSnapshotTime manager0 \<ge> 5000 \<and> length (stateSnapshots manager0) \<le> 10
   \<and> \<not> full storage0
   \<and> stateSnapshots (fst (saveSnapshot 10000 (blob ''R'' 10000) (manager0, storage0))) =
        [blob ''R'' 10000]
   \<and> loadFromLocalStorage (snd (saveSnapshot 10000 (blob ''R'' 10000) (manager0, storage0))) =
        Some (blob ''R'' 10000)
   \<and> 12000 - lastSnapshotTime (fst (saveSnapshot 10000 (blob ''R'' 10000) (manager0, storage0)))
        < 5000
   \<and> saveSnapshot 12000 (blob ''R'' 12000)
        (saveSnapshot 10000 (blob ''R'' 10000) (manager0, storage0)) =
      saveSnapshot 10000 (blob ''R'' 10000) (manager0, storage0)"
proof -
  let ?first = "saveSnapshot 10000 (blob ''R'' 10000) (manager0, storage0)"
  have h: "10000 - lastSnapshotTime manager0 \<ge> 5000 \<and> length (stateSnapshots manager0) \<le> 10"
    and w: "\<not> full storage0"
    by (simp_all add: manager0_def storage0_def)
  note a = saveSnapshot_throttles_whole_save[of 10000 manager0 "blob ''R'' 10000" storage0, THEN conjunct2, rule_format, OF h]
  have t: "12000 - lastSnapshotTime (fst ?first) < 5000" using a by simp
  have "saveSnapshot 12000 (blob ''R'' 12000) (fst ?first, snd ?first) = (fst ?first, snd ?first)"
    by (rule saveSnapshot_throttles_whole_save[of 12000 "fst ?first" "blob ''R'' 12000" "snd ?first",
          THEN conjunct1, rule_format, OF t])
  then have again: "saveSnapshot 12000 (blob ''R'' 12000) ?first = ?first" by simp
  have ring: "stateSnapshots (fst ?first) = [blob ''R'' 10000]"
    using a by (simp add: manager0_def)
  show ?thesis using h w a t again ring by simp
qed


text \<open>
  Claim C7 as stated fails: a second snapshot offered 2 seconds after a saved one is
  not appended to the ring.
\<close>

theorem saveSnapshot_within_window_not_appended:
  "stateSnapshots (fst (saveSnapshot 12000 (blob ''R'' 12000)
      (saveSnapshot 10000 (blob ''R'' 10000) (manager0, storage0)))) = [blob ''R'' 10000]"
  by (simp add: saveSnapshot_def snapshotInterval_ms_def maxSnapshots_def manager0_def Let_def)


section \<open>Properties of the battle server\<close>

subsection \<open>Rooms and sockets\<close>

lemma rooms_get_set:
  "rooms_get (rooms_set rid room rs) rid' = (if rid' = rid then Some room else rooms_get rs rid')"
  by (induction rid room rs rule: rooms_set.induct) (auto simp: rooms_get_def)

lemma ws_send_simps:
  "sent (ws_send w m socks v) = (if v = w then sent (socks v) @ [m] else sent (socks v))"
  "readyState (ws_send w m socks v) = readyState (socks v)"
  "WebSocket.playerId (ws_send w m socks v) = WebSocket.playerId (socks v)"
  by (simp_all add: ws_send_def)

lemma send_simps:
  "sent (send w m socks v) =
     (if v = w \<and> readyState (socks w) = OPEN then sent (socks v) @ [m] else sent (socks v))"
  "readyState (send w m socks v) = readyState (socks v)"
  "WebSocket.playerId (send w m socks v) = WebSocket.playerId (socks v)"
  by (simp_all add: send_def ws_send_simps)

lemma broadcast_fold:
  "readyState (fold (\<lambda>player socks.
             if Some (Player.playerId player) \<noteq> ex \<and> readyState (socks (Player.ws player)) = OPEN
             then ws_send (Player.ws player) m socks else socks) ps socks v) = readyState (socks v)
   \<and> WebSocket.playerId (fold (\<lambda>player socks.
             if Some (Player.playerId player) \<noteq> ex \<and> readyState (socks (Player.ws player)) = OPEN
             then ws_send (Player.ws player) m socks else socks) ps socks v) = WebSocket.playerId (socks v)
   \<and> sent (fold (\<lambda>player socks.
             if Some (Player.playerId player) \<noteq> ex \<and> readyState (socks (Player.ws player)) = OPEN
             then ws_send (Player.ws player) m socks else socks) ps socks v) =
       sent (socks v) @
       replicate (if readyState (socks v) = OPEN
                  then length (filter (\<lambda>p. Player.ws p = v \<and> Some (Player.playerId p) \<noteq> ex) ps)
                  else 0) m"
proof (induction ps arbitrary: socks)
  case Nil
  then show ?case by simp
next
  case (Cons p ps)
  show ?case
    by (simp add: Cons.IH ws_send_simps replicate_app_Cons_same)
qed

lemma broadcast_sent:
  "sent (broadcast room m ex socks v) = sent (socks v) @ replicate (receivers room ex socks v) m"
  "readyState (broadcast room m ex socks v) = readyState (socks v)"
  "WebSocket.playerId (broadcast room m ex socks v) = WebSocket.playerId (socks v)"
  using broadcast_fold[of ex m "players room" socks v]
  by (simp_all add: broadcast_def receivers_def)

lemma addPlayer_result:
  "addPlayer now pid w room socks =
     (if length (players room) \<ge> 2 then Inr (False, room, socks)
      else let room1 = room\<lparr>players := players room @ [\<lparr>Player.playerId = pid, ws = w\<rparr>],
                             BattleRoom.state := (BattleRoom.state room)
                               \<lparr>playerStates := (playerStates (BattleRoom.state room))
                                  (pid \<mapsto> \<lparr>score = 0, moves = 0, connected = True\<rparr>)\<rparr>\<rparr>
           in if length (players room) = 1
              then (let room2 = room1\<lparr>BattleRoom.state := (BattleRoom.state room1)
                              \<lparr>gameStarted := True,
                               RoomState.currentTurn := Some (Player.playerId (hd (players room)))\<rparr>\<rparr>
                    in Inr (True, room2,
                            broadcast room2
                              \<lparr>Message.type = GAME_START,
                               data = GameStartData (room_id room)
                                        (map Player.playerId (players room) @ [pid])
                                        (Some (Player.playerId (hd (players room)))),
                               Message.timestamp = now, Message.playerId = ''server'',
                               messageId = None\<rparr> None socks))
              else Inr (True, room1, socks))"
  by (cases "players room")
     (auto simp: addPlayer_def startGame_def maxPlayers_def Let_def)


subsection \<open>Moves\<close>

text \<open>
  Claim C2, as the code has it. The server does not look at the turn: every \<open>MOVE\<close> for
  an existing room is appended to the room's move log and sent once to each player
  entry of the room whose id is not the sender's and whose socket is open; nothing is
  sent to the sender, no \<open>ERROR\<close> is sent, and the rest of the room, its current turn
  included, stays as it was.
\<close>

theorem handleMove_relays_every_move:
  assumes "rooms_get (rooms srv) rid = Some room"
  shows "rooms_get (rooms (handleMove now w rid mv pid srv)) rid =
           Some (room\<lparr>BattleRoom.state := (BattleRoom.state room)
                   \<lparr>RoomState.moveHistory := RoomState.moveHistory (BattleRoom.state room) @
                      [\<lparr>MoveRecord.playerId = pid, move = mv, MoveRecord.timestamp = now\<rparr>]\<rparr>\<rparr>)
       \<and> (\<forall>v. sent (sockets (handleMove now w rid mv pid srv) v) =
                sent (sockets srv v) @
                replicate (receivers room (Some pid) (sockets srv) v)
                  \<lparr>Message.type = MOVE, data = MoveMessageData mv, Message.timestamp = now,
                   Message.playerId = pid, messageId = None\<rparr>)"
  using assms
  by (simp add: handleMove_def room_handleMove_def Let_def rooms_get_set broadcast_sent
        receivers_def)


theorem handleMove_relays_every_move_witness:
  "rooms_get (rooms server_AB) ''R'' = Some room_AB
   \<and> map_option (\<lambda>r. RoomState.moveHistory (BattleRoom.state r))
        (rooms_get (rooms (handleMove 5 1 ''R'' move0 ''A'' server_AB)) ''R'') =
      Some [\<lparr>MoveRecord.playerId = ''A'', move = move0, MoveRecord.timestamp = 5\<rparr>]
   \<and> sent (sockets (handleMove 5 1 ''R'' move0 ''A'' server_AB) 2) = [move_message 5 ''A'' move0]
   \<and> sent (sockets (handleMove 5 1 ''R'' move0 ''A'' server_AB) 1) = []"
proof -
  have h: "rooms_get (rooms server_AB) ''R'' = Some room_AB"
    by (simp add: server_AB_def rooms_get_def)
  have r2: "receivers room_AB (Some ''A'') (sockets server_AB) 2 = 1"
    and r1: "receivers room_AB (Some ''A'') (sockets server_AB) 1 = 0"
    and s: "sent (sockets server_AB 1) = []" "sent (sockets server_AB 2) = []"
    and m: "RoomState.moveHistory (BattleRoom.state room_AB) = []"
    by (simp_all add: receivers_def room_AB_def server_AB_def server0_def)
  from handleMove_relays_every_move[OF h, of 5 1 move0 "''A''"] h r1 r2 s m show ?thesis
    by (simp add: move_message_def)
qed


text \<open>
  Claim C2 as stated fails: in a started room where it is A's turn, a move sent by B
  reaches A's socket, B's socket receives nothing, and the turn stays with A; after a
  move by A the turn is still A's.
\<close>

theorem handleMove_no_turn_check:
  "RoomState.currentTurn (BattleRoom.state room_AB) = Some ''A''
   \<and> sent (sockets (handleMove 5 2 ''R'' move0 ''B'' server_AB) 1) = [move_message 5 ''B'' move0]
   \<and> sent (sockets (handleMove 5 2 ''R'' move0 ''B'' server_AB) 2) = []
   \<and> map_option (\<lambda>r. RoomState.currentTurn (BattleRoom.state r))
        (rooms_get (rooms (handleMove 5 2 ''R'' move0 ''B'' server_AB)) ''R'') = Some (Some ''A'')
   \<and> map_option (\<lambda>r. RoomState.currentTurn (BattleRoom.state r))
        (rooms_get (rooms (handleMove 5 1 ''R'' move0 ''A'' server_AB)) ''R'') = Some (Some ''A'')"
  by code_simp

subsection \<open>Joining a room\<close>

text \<open>
  Claim C8. \<open>addPlayer\<close> always returns, and with success exactly when the room held
  fewer than 2 players. When a second player \<open>b\<close> joins the room of \<open>a\<close> (two open
  sockets), the room holds both, each of the two sockets is sent \<open>GAME_START\<close> with the
  players \<open>[a, b]\<close> and starting player \<open>a\<close>, and then \<open>ROOM_JOINED\<close> with the other
  player's id and the player count 2. A \<open>JOIN_ROOM\<close> for a room with 2 players is
  answered with \<open>ROOM_FULL\<close> and leaves the rooms as they were.
\<close>

theorem join_starts_game_and_full_room_refuses:
  "(\<forall>ok room' socks'. addPlayer now pid w room socks = Inr (ok, room', socks') \<longrightarrow>
        ok = (length (players room) < 2))
   \<and> (\<exists>res. addPlayer now pid w room socks = Inr res)
   \<and> (rooms_get (rooms srv) rid = Some room
        \<and> players room = [\<lparr>Player.playerId = a, ws = wa\<rparr>] \<and> a \<noteq> b \<and> wa \<noteq> wb
        \<and> readyState (sockets srv wa) = OPEN \<and> readyState (sockets srv wb) = OPEN \<longrightarrow>
        (\<exists>srv'. handleJoinRoom now wb rid b mid srv = Inr srv'
           \<and> map_option players (rooms_get (rooms srv') rid) =
               Some [\<lparr>Player.playerId = a, ws = wa\<rparr>, \<lparr>Player.playerId = b, ws = wb\<rparr>]
           \<and> sent (sockets srv' wb) = sent (sockets srv wb) @
               [\<lparr>Message.type = GAME_START,
                 data = GameStartData (room_id room) [a, b] (Some a),
                 Message.timestamp = now, Message.playerId = ''server'', messageId = None\<rparr>,
                \<lparr>Message.type = ROOM_JOINED, data = RoomJoinedData rid (Some a) 2,
                 Message.timestamp = now, Message.playerId = ''server'', messageId = mid\<rparr>]
           \<and> sent (sockets srv' wa) = sent (sockets srv wa) @
               [\<lparr>Message.type = GAME_START,
                 data = GameStartData (room_id room) [a, b] (Some a),
                 Message.timestamp = now, Message.playerId = ''server'', messageId = None\<rparr>,
                \<lparr>Message.type = ROOM_JOINED, data = RoomJoinedData rid (Some b) 2,
                 Message.timestamp = now, Message.playerId = ''server'', messageId = None\<rparr>]))
   \<and> (rooms_get (rooms srv) rid = Some room \<and> length (players room) \<ge> 2
        \<and> readyState (sockets srv wb) = OPEN \<longrightarrow>
        (\<exists>srv'. handleJoinRoom now wb rid b mid srv = Inr srv'
           \<and> rooms srv' = rooms srv
           \<and> sent (sockets srv' wb) = sent (sockets srv wb) @
               [\<lparr>Message.type = ROOM_FULL, data = RoomIdData rid,
                 Message.timestamp = now, Message.playerId = ''server'', messageId = mid\<rparr>]
           \<and> (\<forall>v. v \<noteq> wb \<longrightarrow> sent (sockets srv' v) = sent (sockets srv v))))"
proof (intro conjI allI impI)
  fix ok room' socks'
  assume "addPlayer now pid w room socks = Inr (ok, room', socks')"
  then show "ok = (length (players room) < 2)"
    by (auto simp: addPlayer_result Let_def split: if_splits)
next
  show "\<exists>res. addPlayer now pid w room socks = Inr res"
    by (auto simp: addPlayer_result Let_def)
next
  assume h: "rooms_get (rooms srv) rid = Some room
        \<and> players room = [\<lparr>Player.playerId = a, ws = wa\<rparr>] \<and> a \<noteq> b \<and> wa \<noteq> wb
        \<and> readyState (sockets srv wa) = OPEN \<and> readyState (sockets srv wb) = OPEN"
  then show "\<exists>srv'. handleJoinRoom now wb rid b mid srv = Inr srv'
           \<and> map_option players (rooms_get (rooms srv') rid) =
               Some [\<lparr>Player.playerId = a, ws = wa\<rparr>, \<lparr>Player.playerId = b, ws = wb\<rparr>]
           \<and> sent (sockets srv' wb) = sent (sockets srv wb) @
               [\<lparr>Message.type = GAME_START,
                 data = GameStartData (room_id room) [a, b] (Some a),
                 Message.timestamp = now, Message.playerId = ''server'', messageId = None\<rparr>,
                \<lparr>Message.type = ROOM_JOINED, data = RoomJoinedData rid (Some a) 2,
                 Message.timestamp = now, Message.playerId = ''server'', messageId = mid\<rparr>]
           \<and> sent (sockets srv' wa) = sent (sockets srv wa) @
               [\<lparr>Message.type = GAME_START,
                 data = GameStartData (room_id room) [a, b] (Some a),
                 Message.timestamp = now, Message.playerId = ''server'', messageId = None\<rparr>,
                \<lparr>Message.type = ROOM_JOINED, data = RoomJoinedData rid (Some b) 2,
                 Message.timestamp = now, Message.playerId = ''server'', messageId = None\<rparr>]"
    by (simp add: handleJoinRoom_def isFull_def maxPlayers_def addPlayer_result Let_def
          rooms_get_set send_simps broadcast_sent receivers_def)
next
  assume "rooms_get (rooms srv) rid = Some room \<and> length (players room) \<ge> 2
        \<and> readyState (sockets srv wb) = OPEN"
  then show "\<exists>srv'. handleJoinRoom now wb rid b mid srv = Inr srv'
           \<and> rooms srv' = rooms srv
           \<and> sent (sockets srv' wb) = sent (sockets srv wb) @
               [\<lparr>Message.type = ROOM_FULL, data = RoomIdData rid,
                 Message.timestamp = now, Message.playerId = ''server'', messageId = mid\<rparr>]
           \<and> (\<forall>v. v \<noteq> wb \<longrightarrow> sent (sockets srv' v) = sent (sockets srv v))"
    by (simp add: handleJoinRoom_def isFull_def maxPlayers_def send_simps)
qed

theorem join_starts_game_and_full_room_refuses_witness:
  "rooms_get (rooms server_A) ''R'' = Some room_A
   \<and> players room_A = [\<lparr>Player.playerId = ''A'', ws = 1\<rparr>] \<and> ''A'' \<noteq> ''B'' \<and> (1::nat) \<noteq> 2
   \<and> readyState (sockets server_A 1) = OPEN \<and> readyState (sockets server_A 2) = OPEN
   \<and> map_sum id (\<lambda>s. sent (sockets s 2)) (handleJoinRoom 2 2 ''R'' ''B'' (Some ''m1'') server_A) =
      Inr [\<lparr>Message.type = GAME_START, data = GameStartData ''R'' [''A'', ''B''] (Some ''A''),
            Message.timestamp = 2, Message.playerId = ''server'', messageId = None\<rparr>,
           \<lparr>Message.type = ROOM_JOINED, data = RoomJoinedData ''R'' (Some ''A'') 2,
            Message.timestamp = 2, Message.playerId = ''server'', messageId = Some ''m1''\<rparr>]
   \<and> map_sum id (\<lambda>s. sent (sockets s 1)) (handleJoinRoom 2 2 ''R'' ''B'' (Some ''m1'') server_A) =
      Inr [\<lparr>Message.type = GAME_START, data = GameStartData ''R'' [''A'', ''B''] (Some ''A''),
            Message.timestamp = 2, Message.playerId = ''server'', messageId = None\<rparr>,
           \<lparr>Message.type = ROOM_JOINED, data = RoomJoinedData ''R'' (Some ''B'') 2,
            Message.timestamp = 2, Message.playerId = ''server'', messageId = None\<rparr>]
   \<and> rooms_get (rooms server_AB) ''R'' = Some room_AB \<and> length (players room_AB) \<ge> 2
   \<and> readyState (sockets server_AB 3) = OPEN
   \<and> map_sum id (\<lambda>s. (rooms s = rooms server_AB, sent (sockets s 3)))
        (handleJoinRoom 9 3 ''R'' ''C'' None server_AB) =
      Inr (True, [\<lparr>Message.type = ROOM_FULL, data = RoomIdData ''R'',
            Message.timestamp = 9, Message.playerId = ''server'', messageId = None\<rparr>])"
proof -
  have h1: "rooms_get (rooms server_A) ''R'' = Some room_A
        \<and> players room_A = [\<lparr>Player.playerId = ''A'', ws = 1\<rparr>] \<and> ''A'' \<noteq> ''B'' \<and> (1::nat) \<noteq> 2
        \<and> readyState (sockets server_A 1) = OPEN \<and> readyState (sockets server_A 2) = OPEN"
    by (simp add: server_A_def room_A_def server0_def rooms_get_def)
  have h2: "rooms_get (rooms server_AB) ''R'' = Some room_AB \<and> length (players room_AB) \<ge> 2
        \<and> readyState (sockets server_AB 3) = OPEN"
    by (simp add: server_AB_def room_AB_def server0_def rooms_get_def)
  have e: "sent (sockets server_A 1) = []" "sent (sockets server_A 2) = []"
    "sent (sockets server_AB 3) = []" "room_id room_A = ''R''"
    by (simp_all add: server_A_def server_AB_def server0_def room_A_def)
  note th = join_starts_game_and_full_room_refuses[of 2 "''B''" 2 room_A "sockets server_A" server_A "''R''" "''A''" 1 "''B''" 2 "Some ''m1''"]
  note th' = join_starts_game_and_full_room_refuses[of 9 "''C''" 3 room_AB "sockets server_AB" server_AB "''R''" "''A''" 1 "''C''" 3 None]
  from th[THEN conjunct2, THEN conjunct2, THEN conjunct1, rule_format, OF h1]
  obtain s where s: "handleJoinRoom 2 2 ''R'' ''B'' (Some ''m1'') server_A = Inr s"
    and s2: "sent (sockets s 2) = sent (sockets server_A 2) @
               [\<lparr>Message.type = GAME_START, data = GameStartData (room_id room_A) [''A'', ''B''] (Some ''A''),
                 Message.timestamp = 2, Message.playerId = ''server'', messageId = None\<rparr>,
                \<lparr>Message.type = ROOM_JOINED, data = RoomJoinedData ''R'' (Some ''A'') 2,
                 Message.timestamp = 2, Message.playerId = ''server'', messageId = Some ''m1''\<rparr>]"
    and s1: "sent (sockets s 1) = sent (sockets server_A 1) @
               [\<lparr>Message.type = GAME_START, data = GameStartData (room_id room_A) [''A'', ''B''] (Some ''A''),
                 Message.timestamp = 2, Message.playerId = ''server'', messageId = None\<rparr>,
                \<lparr>Message.type = ROOM_JOINED, data = RoomJoinedData ''R'' (Some ''B'') 2,
                 Message.timestamp = 2, Message.playerId = ''server'', messageId = None\<rparr>]"
    by blast
  from th'[THEN conjunct2, THEN conjunct2, THEN conjunct2, rule_format, OF h2]
  obtain t where t: "handleJoinRoom 9 3 ''R'' ''C'' None server_AB = Inr t"
    and t1: "rooms t = rooms server_AB"
    and t2: "sent (sockets t 3) = sent (sockets server_AB 3) @
               [\<lparr>Message.type = ROOM_FULL, data = RoomIdData ''R'',
                 Message.timestamp = 9, Message.playerId = ''server'', messageId = None\<rparr>]"
    by blast
  show ?thesis using h1 h2 s s1 s2 t t1 t2 e by simp
qed


subsection \<open>Matchmaking\<close>

lemma new_room_addPlayer_twice:
  "match_players now rid p1 p2 srv =
     Inr (srv\<lparr>rooms := rooms_set rid (matched_room now rid p1 p2) (rooms srv),
              sockets :=
                send (QueueEntry.ws p2) (match_message now rid (QueueEntry.playerId p1))
                  (send (QueueEntry.ws p1) (match_message now rid (QueueEntry.playerId p2))
                     (broadcast (matched_room now rid p1 p2)
                        \<lparr>Message.type = GAME_START,
                         data = GameStartData rid
                                  [QueueEntry.playerId p1, QueueEntry.playerId p2]
                                  (Some (QueueEntry.playerId p1)),
                         Message.timestamp = now, Message.playerId = ''server'',
                         messageId = None\<rparr> None (sockets srv)))\<rparr>)"
  by (simp add: match_players_def addPlayer_result new_BattleRoom_def matched_room_def
        match_message_def Let_def)

lemma match_players_effect:
  obtains srv' where "match_players now rid p1 p2 srv = Inr srv'"
    and "rooms srv' = rooms_set rid (matched_room now rid p1 p2) (rooms srv)"
    and "matchmakingQueue srv' = matchmakingQueue srv"
    and "\<And>v. readyState (sockets srv' v) = readyState (sockets srv v)"
    and "\<And>v. \<exists>ys. sent (sockets srv' v) = sent (sockets srv v) @ ys"
    and "readyState (sockets srv (QueueEntry.ws p1)) = OPEN \<Longrightarrow>
           match_message now rid (QueueEntry.playerId p2) \<in> set (new_messages srv srv' (QueueEntry.ws p1))"
    and "readyState (sockets srv (QueueEntry.ws p2)) = OPEN \<Longrightarrow>
           match_message now rid (QueueEntry.playerId p1) \<in> set (new_messages srv srv' (QueueEntry.ws p2))"
proof -
  let ?srv' = "srv\<lparr>rooms := rooms_set rid (matched_room now rid p1 p2) (rooms srv),
              sockets :=
                send (QueueEntry.ws p2) (match_message now rid (QueueEntry.playerId p1))
                  (send (QueueEntry.ws p1) (match_message now rid (QueueEntry.playerId p2))
                     (broadcast (matched_room now rid p1 p2)
                        \<lparr>Message.type = GAME_START,
                         data = GameStartData rid
                                  [QueueEntry.playerId p1, QueueEntry.playerId p2]
                                  (Some (QueueEntry.playerId p1)),
                         Message.timestamp = now, Message.playerId = ''server'',
                         messageId = None\<rparr> None (sockets srv)))\<rparr>"
  show ?thesis
  proof (rule that[of ?srv'])
    show "match_players now rid p1 p2 srv = Inr ?srv'" by (rule new_room_addPlayer_twice)
  qed (auto simp: send_simps broadcast_sent new_messages_def)
qed

lemma new_messages_trans:
  assumes "sent (sockets s1 v) = sent (sockets s0 v) @ ys1"
    and "sent (sockets s2 v) = sent (sockets s1 v) @ ys2"
  shows "new_messages s0 s2 v = new_messages s0 s1 v @ new_messages s1 s2 v"
  using assms by (simp add: new_messages_def)

lemma processMatchmakingQueue_drains:
  "\<exists>srv'. processMatchmakingQueue now newId srv = Inr srv' \<and> drained now newId srv srv'"
proof (induction now newId srv rule: processMatchmakingQueue.induct)
  case (1 now newId srv)
  show ?case
  proof (cases "matchmakingQueue srv")
    case Nil
    then show ?thesis
      by (simp add: processMatchmakingQueue.simps drained_def new_messages_def)
  next
    case outer: (Cons p1 tl1)
    show ?thesis
    proof (cases tl1)
      case Nil
      with outer show ?thesis
        by (simp add: processMatchmakingQueue.simps drained_def new_messages_def)
    next
      case inner: (Cons p2 rest)
      with outer have q: "matchmakingQueue srv = p1 # p2 # rest" by simp
      let ?s0 = "srv\<lparr>matchmakingQueue := rest\<rparr>"
      obtain s1 where m: "match_players now (newId 0) p1 p2 ?s0 = Inr s1"
        and rooms1: "rooms s1 = rooms_set (newId 0) (matched_room now (newId 0) p1 p2) (rooms ?s0)"
        and ready1: "\<And>v. readyState (sockets s1 v) = readyState (sockets ?s0 v)"
        and sent1: "\<And>v. \<exists>ys. sent (sockets s1 v) = sent (sockets ?s0 v) @ ys"
        and msg1: "readyState (sockets ?s0 (QueueEntry.ws p1)) = OPEN \<Longrightarrow>
           match_message now (newId 0) (QueueEntry.playerId p2)
             \<in> set (new_messages ?s0 s1 (QueueEntry.ws p1))"
        and msg2: "readyState (sockets ?s0 (QueueEntry.ws p2)) = OPEN \<Longrightarrow>
           match_message now (newId 0) (QueueEntry.playerId p1)
             \<in> set (new_messages ?s0 s1 (QueueEntry.ws p2))"
        by (rule match_players_effect[of now "newId 0" p1 p2 ?s0]) blast
      let ?s1 = "s1\<lparr>matchmakingQueue := rest\<rparr>"
      from "1.IH"[OF outer inner m] obtain s2
        where p: "processMatchmakingQueue now (\<lambda>i. newId (Suc i)) ?s1 = Inr s2"
          and d: "drained now (\<lambda>i. newId (Suc i)) ?s1 s2" by blast
      have res: "processMatchmakingQueue now newId srv = Inr s2"
        using q m p by (subst processMatchmakingQueue.simps) simp
      let ?k = "length rest div 2"
      have k: "length (matchmakingQueue srv) div 2 = Suc ?k" using q by simp
      from d have dq: "matchmakingQueue s2 = drop (2 * ?k) rest"
        and dready: "\<And>v. readyState (sockets s2 v) = readyState (sockets s1 v)"
        and dsent: "\<And>v. \<exists>ys. sent (sockets s2 v) = sent (sockets s1 v) @ ys"
        and drooms: "\<And>rid. (\<forall>j < ?k. newId (Suc j) \<noteq> rid) \<Longrightarrow>
                       rooms_get (rooms s2) rid = rooms_get (rooms s1) rid"
        and dpairs: "\<And>i. i < ?k \<Longrightarrow>
            (readyState (sockets s1 (QueueEntry.ws (rest ! (2 * i)))) = OPEN \<longrightarrow>
               match_message now (newId (Suc i)) (QueueEntry.playerId (rest ! (2 * i + 1)))
                 \<in> set (new_messages ?s1 s2 (QueueEntry.ws (rest ! (2 * i)))))
          \<and> (readyState (sockets s1 (QueueEntry.ws (rest ! (2 * i + 1)))) = OPEN \<longrightarrow>
               match_message now (newId (Suc i)) (QueueEntry.playerId (rest ! (2 * i)))
                 \<in> set (new_messages ?s1 s2 (QueueEntry.ws (rest ! (2 * i + 1)))))
          \<and> ((\<forall>j < ?k. i < j \<longrightarrow> newId (Suc j) \<noteq> newId (Suc i)) \<longrightarrow>
               rooms_get (rooms s2) (newId (Suc i)) =
                 Some (matched_room now (newId (Suc i)) (rest ! (2 * i)) (rest ! (2 * i + 1))))"
        by (simp_all add: drained_def Let_def)
      have nm: "new_messages srv s2 v = new_messages ?s0 s1 v @ new_messages ?s1 s2 v" for v
      proof -
        from sent1[of v] obtain ys1 where a: "sent (sockets s1 v) = sent (sockets srv v) @ ys1"
          by auto
        from dsent[of v] obtain ys2 where b: "sent (sockets s2 v) = sent (sockets s1 v) @ ys2"
          by auto
        show ?thesis using a b by (simp add: new_messages_def)
      qed
      let ?q = "matchmakingQueue srv"
      let ?K = "length ?q div 2"
      have nth0: "?q ! 0 = p1" "?q ! 1 = p2" using q by simp_all
      have nthS: "?q ! Suc (Suc n) = rest ! n" for n
        using q by simp
      have "drained now newId srv s2"
        unfolding drained_def Let_def
      proof (intro conjI allI impI)
        show "matchmakingQueue s2 = drop (2 * ?K) ?q"
          using dq by (simp add: k q)
      next
        fix v show "readyState (sockets s2 v) = readyState (sockets srv v)"
          using dready[of v] ready1[of v] by simp
      next
        fix v show "\<exists>ys. sent (sockets s2 v) = sent (sockets srv v) @ ys"
          using dsent[of v] sent1[of v] by auto
      next
        fix rid assume a: "\<forall>j<?K. newId j \<noteq> rid"
        then have "\<forall>j < ?k. newId (Suc j) \<noteq> rid" by (auto simp: k)
        from drooms[OF this] have "rooms_get (rooms s2) rid = rooms_get (rooms s1) rid" .
        also from a have "newId 0 \<noteq> rid" by (auto simp: k)
        then have "rooms_get (rooms s1) rid = rooms_get (rooms srv) rid"
          by (auto simp: rooms1 rooms_get_set)
        finally show "rooms_get (rooms s2) rid = rooms_get (rooms srv) rid" .
      next
        fix i assume i: "i < ?K"
          and o: "readyState (sockets srv (QueueEntry.ws (?q ! (2 * i)))) = OPEN"
        show "match_message now (newId i) (QueueEntry.playerId (?q ! (2 * i + 1)))
                 \<in> set (new_messages srv s2 (QueueEntry.ws (?q ! (2 * i))))"
        proof (cases i)
          case 0
          with o msg1 nth0 show ?thesis by (simp add: nm)
        next
          case (Suc j)
          with i o dpairs[of j] ready1 show ?thesis by (simp add: nm k nthS)
        qed
      next
        fix i assume i: "i < ?K"
          and o: "readyState (sockets srv (QueueEntry.ws (?q ! (2 * i + 1)))) = OPEN"
        show "match_message now (newId i) (QueueEntry.playerId (?q ! (2 * i)))
                 \<in> set (new_messages srv s2 (QueueEntry.ws (?q ! (2 * i + 1))))"
        proof (cases i)
          case 0
          with o msg2 nth0 show ?thesis by (simp add: nm)
        next
          case (Suc j)
          with i o dpairs[of j] ready1 show ?thesis by (simp add: nm k nthS)
        qed
      next
        fix i assume i: "i < ?K"
          and fresh: "\<forall>j<?K. i < j \<longrightarrow> newId j \<noteq> newId i"
        show "rooms_get (rooms s2) (newId i) =
                 Some (matched_room now (newId i) (?q ! (2 * i)) (?q ! (2 * i + 1)))"
        proof (cases i)
          case 0
          with fresh have "\<forall>j < ?k. newId (Suc j) \<noteq> newId 0" by (auto simp: k)
          from drooms[OF this] 0 nth0 show ?thesis by (simp add: rooms1 rooms_get_set)
        next
          case (Suc j)
          with fresh have "\<forall>j' < ?k. j < j' \<longrightarrow> newId (Suc j') \<noteq> newId (Suc j)"
            by (auto simp: k)
          with i Suc dpairs[of j] show ?thesis by (simp add: k nthS)
        qed
      qed
      with res show ?thesis by blast
    qed
  qed
qed

lemma remove_first_filter:
  "length (filter P xs) \<le> 1 \<Longrightarrow> filter P (remove_first P xs) = []"
  by (induction xs) (auto simp: filter_empty_conv)

lemma handleDisconnect_queue:
  assumes "WebSocket.playerId (sockets srv w) = Some pid" and "pid \<noteq> []"
  shows "matchmakingQueue (handleDisconnect now w srv) =
         remove_first (\<lambda>p. QueueEntry.playerId p = pid) (matchmakingQueue srv)"
  using assms by (simp add: handleDisconnect_def Let_def split_def)

lemma handleDisconnect_single_ticket:
  assumes "WebSocket.playerId (sockets srv w) = Some pid" and "pid \<noteq> []"
    and "length (filter (\<lambda>p. QueueEntry.playerId p = pid) (matchmakingQueue srv)) \<le> 1"
  shows "pid \<notin> QueueEntry.playerId ` set (matchmakingQueue (handleDisconnect now w srv))"
proof -
  from remove_first_filter[OF assms(3)]
  have "filter (\<lambda>p. QueueEntry.playerId p = pid) (matchmakingQueue (handleDisconnect now w srv)) = []"
    by (simp add: handleDisconnect_queue[OF assms(1,2)])
  then show ?thesis by (auto simp: filter_empty_conv)
qed


text \<open>
  Claim C9 at a failing input. P connects, asks for a match twice and disconnects:
  \<open>handleDisconnect\<close> removes the first of P's two tickets only. Q then asks for a match,
  and the drain pairs Q with the ticket of the closed socket: the queue is emptied, a
  room with P and Q is created, Q is told that P is its opponent, and P's socket
  receives nothing.
\<close>

theorem handleDisconnect_leaves_duplicate_ticket:
  "map QueueEntry.playerId (matchmakingQueue server_P_left) = [''P'']
   \<and> readyState (sockets server_P_left 1) = CLOSED
   \<and> map_sum id (\<lambda>s. (map QueueEntry.playerId (matchmakingQueue s),
                       map_option (\<lambda>r. map Player.playerId (players r))
                         (rooms_get (rooms s) ''room_7''),
                       new_messages server_P_left_Q_waits s 1,
                       new_messages server_P_left_Q_waits s 2))
        (processMatchmakingQueue 7 (\<lambda>i. ''room_7'') server_P_left_Q_waits) =
      Inr ([], Some [''P'', ''Q''], [],
           [\<lparr>Message.type = GAME_START, data = GameStartData ''room_7'' [''P'', ''Q''] (Some ''P''),
             Message.timestamp = 7, Message.playerId = ''server'', messageId = None\<rparr>,
            match_message 7 ''room_7'' ''P''])"
  by code_simp

end
